theory Spec2Isabelle
  imports Complex_Main "HOL-Library.Multiset"
begin

section \<open>Conventions of the embedding\<close>

text \<open>
  The learning engine of \<^verbatim>\<open>gym_jsbsim/learn/ddpg_torch_eee.py\<close> is embedded as follows.
  \<^item> Array and tensor elements are real numbers. The rounding of binary floating-point
    arithmetic (to nearest, ties to even) is written out, operation by operation, in the
    soft update of the target networks (float32 tensors), in the final \<^verbatim>\<open>tanh\<close> of the actor
    (a float32 tensor) and in the numpy arithmetic of the constructor's \<open>scale\<close> and
    \<open>shift\<close> and of \<^verbatim>\<open>choose_action\<close> (float64 arrays). The layers of the networks are
    abstract functions, and the TD target and the noise process are computed over the
    reals. The exponent range is unbounded: overflow, subnormal numbers, the sign of zero,
    infinities and NaN are not represented.
  \<^item> A one-dimensional numpy array is a \<open>real list\<close>. A two-dimensional tensor is a
    pair of its number of columns and its list of rows, so that a tensor with no row
    still has a width, as it has in numpy and torch.
  \<^item> Every exception the embedded code can raise is a value of \<open>py_error\<close>, and a
    function that can raise returns \<open>py_error + 'a\<close>.
  \<^item> The outcome of a random draw (\<^verbatim>\<open>np.random.normal\<close>, \<^verbatim>\<open>np.random.choice\<close>) is an
    argument of the function that draws.
\<close>

datatype py_error =
    ZeroDivisionError
  | ValueError
  | IndexError
  | KeyError
  | TypeError
  | NameError
  | FileNotFoundError
  | SizeMismatch
  | EmptyTensorList

type_synonym tensor2 = "nat \<times> real list list"

subsection \<open>Rounding\<close>

text \<open>
  \<open>rne\<close> rounds a real to the nearest integer, a tie to the even one. \<open>fl p x\<close> is the
  binary floating-point number with a significand of \<open>p\<close> bits nearest to \<open>x\<close>: with
  \<open>e\<close> the integer part of the binary logarithm of \<open>\<bar>x\<bar>\<close>, such numbers are spaced
  \<open>2 powr (e - (p - 1))\<close> apart around \<open>x\<close>, and \<open>x\<close> is rounded to a multiple of that. \<open>float32\<close> (24 bits) is the element type of torch's
  default tensors, \<open>float64\<close> (53 bits) that of Python's \<^verbatim>\<open>float\<close> and of numpy's
  \<^verbatim>\<open>dtype='float'\<close> arrays, as the environment's action space has them.
\<close>

definition rne :: "real \<Rightarrow> int" where
  "rne y =
     (let f = \<lfloor>y\<rfloor>; r = y - of_int f in
      if r < 1/2 then f else if 1/2 < r then f + 1 else if even f then f else f + 1)"

definition float_exponent :: "real \<Rightarrow> int" where
  "float_exponent x = \<lfloor>log 2 \<bar>x\<bar>\<rfloor>"

definition fl :: "nat \<Rightarrow> real \<Rightarrow> real" where
  "fl p x =
     (if x = 0 then 0
      else let u = 2 powr (of_int (float_exponent x) - (of_nat p - 1))
           in of_int (rne (x / u)) * u)"

definition float32 :: "real \<Rightarrow> real" where
  "float32 x = fl 24 x"

definition float64 :: "real \<Rightarrow> real" where
  "float64 x = fl 53 x"

text \<open>
  Elementwise arithmetic of numpy on two one-dimensional arrays: equal lengths combine
  pointwise, an array of length one is broadcast, anything else raises ValueError.
\<close>

definition np_elementwise ::
  "(real \<Rightarrow> real \<Rightarrow> real) \<Rightarrow> real list \<Rightarrow> real list \<Rightarrow> py_error + real list" where
  "np_elementwise f a b =
     (if length a = length b then Inr (map2 f a b)
      else if length a = 1 then Inr (map (f (hd a)) b)
      else if length b = 1 then Inr (map (\<lambda>x. f x (hd b)) a)
      else Inl ValueError)"

section \<open>OUActionNoise\<close>

record OUActionNoise =
  ou_theta :: real
  ou_mu :: "real list"
  ou_sigma :: real
  ou_dt :: real
  ou_x0 :: "real list option"
  ou_x_prev :: "real list"

text \<open>\<^verbatim>\<open>reset\<close>: \<^verbatim>\<open>self.x_prev = self.x0 if self.x0 is not None else np.zeros_like(self.mu)\<close>.\<close>

definition OUActionNoise_reset :: "OUActionNoise \<Rightarrow> OUActionNoise" where
  "OUActionNoise_reset s =
     s\<lparr>ou_x_prev := (case ou_x0 s of Some v \<Rightarrow> v | None \<Rightarrow> replicate (length (ou_mu s)) 0)\<rparr>"

text \<open>\<^verbatim>\<open>__init__\<close> stores its arguments and calls \<^verbatim>\<open>reset\<close>.\<close>

definition OUActionNoise_init ::
  "real list \<Rightarrow> real \<Rightarrow> real \<Rightarrow> real \<Rightarrow> real list option \<Rightarrow> OUActionNoise" where
  "OUActionNoise_init m sg th d x =
     OUActionNoise_reset
       \<lparr>ou_theta = th, ou_mu = m, ou_sigma = sg, ou_dt = d, ou_x0 = x, ou_x_prev = []\<rparr>"

text \<open>
  \<^verbatim>\<open>__call__\<close>: \<^verbatim>\<open>x = x_prev + theta * (mu - x_prev) * dt + sigma * sqrt(dt) * normal(size=mu.shape)\<close>,
  then \<^verbatim>\<open>self.x_prev = x\<close> and \<^verbatim>\<open>return x\<close>. The argument \<open>n\<close> is the vector drawn by
  \<^verbatim>\<open>np.random.normal\<close>. The operations are evaluated in Python's order. For a negative
  \<open>dt\<close> numpy's square root is NaN, which the reals do not have; the theorems about
  this function take \<open>dt\<close> non-negative.
\<close>

definition OUActionNoise_call ::
  "real list \<Rightarrow> OUActionNoise \<Rightarrow> py_error + (real list \<times> OUActionNoise)" where
  "OUActionNoise_call n s =
     (case np_elementwise (-) (ou_mu s) (ou_x_prev s) of
        Inl e \<Rightarrow> Inl e
      | Inr d \<Rightarrow>
          (case np_elementwise (+) (ou_x_prev s) (map (\<lambda>v. ou_theta s * v * ou_dt s) d) of
             Inl e \<Rightarrow> Inl e
           | Inr drift \<Rightarrow>
               (case np_elementwise (+) drift (map (\<lambda>v. ou_sigma s * sqrt (ou_dt s) * v) n) of
                  Inl e \<Rightarrow> Inl e
                | Inr x \<Rightarrow> Inr (x, s\<lparr>ou_x_prev := x\<rparr>))))"

section \<open>ReplayBuffer\<close>

text \<open>
  The five parallel arrays of the buffer. \<open>input_shape\<close> and \<open>actions_shape\<close> are the
  widths the constructor gives the observation and action arrays (one-dimensional
  observation and action shapes, as the agents use them).
\<close>

record ReplayBuffer =
  mem_size :: nat
  mem_cntr :: nat
  input_shape :: nat
  actions_shape :: nat
  obs_memory :: "real list list"
  obs_next_memory :: "real list list"
  action_memory :: "real list list"
  reward_memory :: "real list"
  terminal_memory :: "real list"

definition ReplayBuffer_init :: "nat \<Rightarrow> nat \<Rightarrow> nat \<Rightarrow> ReplayBuffer" where
  "ReplayBuffer_init max_size in_shape act_shape =
     \<lparr>mem_size = max_size, mem_cntr = 0,
      input_shape = in_shape, actions_shape = act_shape,
      obs_memory = replicate max_size (replicate in_shape 0),
      obs_next_memory = replicate max_size (replicate in_shape 0),
      action_memory = replicate max_size (replicate act_shape 0),
      reward_memory = replicate max_size 0,
      terminal_memory = replicate max_size 0\<rparr>"

text \<open>
  Assigning a vector to a row of width \<open>d\<close> (\<^verbatim>\<open>self.obs_memory[index] = obs\<close>): numpy takes a
  vector of that width, broadcasts a vector of length one, and raises ValueError otherwise.
\<close>

definition np_row_value :: "nat \<Rightarrow> real list \<Rightarrow> py_error + real list" where
  "np_row_value d v =
     (if length v = d then Inr v
      else if length v = 1 then Inr (replicate d (hd v))
      else Inl ValueError)"

text \<open>A transition as \<^verbatim>\<open>store_transition\<close> receives it: obs, action, reward, obs_next, done.\<close>

type_synonym transition = "real list \<times> real list \<times> real \<times> real list \<times> bool"

text \<open>
  \<^verbatim>\<open>store_transition\<close>. \<^verbatim>\<open>self.mem_cntr % self.mem_size\<close> raises ZeroDivisionError for a
  buffer of size zero. The terminal array receives \<^verbatim>\<open>1 - done\<close>.
\<close>

definition store_transition :: "ReplayBuffer \<Rightarrow> transition \<Rightarrow> py_error + ReplayBuffer" where
  "store_transition b t =
     (case t of (obs, action, reward, obs_next, done) \<Rightarrow>
        if mem_size b = 0 then Inl ZeroDivisionError
        else
          let index = mem_cntr b mod mem_size b in
          (case np_row_value (input_shape b) obs of
             Inl e \<Rightarrow> Inl e
           | Inr o_row \<Rightarrow>
               (case np_row_value (input_shape b) obs_next of
                  Inl e \<Rightarrow> Inl e
                | Inr on_row \<Rightarrow>
                    (case np_row_value (actions_shape b) action of
                       Inl e \<Rightarrow> Inl e
                     | Inr a_row \<Rightarrow>
                         Inr (b\<lparr>obs_memory := (obs_memory b)[index := o_row],
                                obs_next_memory := (obs_next_memory b)[index := on_row],
                                action_memory := (action_memory b)[index := a_row],
                                reward_memory := (reward_memory b)[index := reward],
                                terminal_memory :=
                                  (terminal_memory b)[index := 1 - (if done then 1 else 0)],
                                mem_cntr := mem_cntr b + 1\<rparr>)))))"

text \<open>A sequence of \<^verbatim>\<open>store_transition\<close> calls; the first exception ends it.\<close>

fun store_all :: "ReplayBuffer \<Rightarrow> transition list \<Rightarrow> py_error + ReplayBuffer" where
  "store_all b [] = Inr b"
| "store_all b (t # ts) =
     (case store_transition b t of Inl e \<Rightarrow> Inl e | Inr b' \<Rightarrow> store_all b' ts)"

text \<open>
  \<^verbatim>\<open>get_samples_from_buffer\<close>: numpy's indexing with an index array raises IndexError when
  an index is not below the array's length. The two-dimensional results carry their width.
\<close>

definition np_take :: "'a list \<Rightarrow> nat list \<Rightarrow> py_error + 'a list" where
  "np_take xs idxs =
     (if \<forall>i \<in> set idxs. i < length xs then Inr (map (\<lambda>i. xs ! i) idxs) else Inl IndexError)"

definition get_samples_from_buffer ::
  "ReplayBuffer \<Rightarrow> nat list \<Rightarrow>
   py_error + (tensor2 \<times> tensor2 \<times> real list \<times> tensor2 \<times> real list)" where
  "get_samples_from_buffer b batch_idxs =
     (case np_take (obs_memory b) batch_idxs of
        Inl e \<Rightarrow> Inl e
      | Inr obs \<Rightarrow>
     (case np_take (action_memory b) batch_idxs of
        Inl e \<Rightarrow> Inl e
      | Inr actions \<Rightarrow>
     (case np_take (reward_memory b) batch_idxs of
        Inl e \<Rightarrow> Inl e
      | Inr rewards \<Rightarrow>
     (case np_take (obs_next_memory b) batch_idxs of
        Inl e \<Rightarrow> Inl e
      | Inr obs_next \<Rightarrow>
     (case np_take (terminal_memory b) batch_idxs of
        Inl e \<Rightarrow> Inl e
      | Inr terminal \<Rightarrow>
          Inr ((input_shape b, obs), (actions_shape b, actions), rewards,
               (input_shape b, obs_next), terminal))))))"

text \<open>The content of one slot, and what a transition looks like once stored.\<close>

definition slot :: "ReplayBuffer \<Rightarrow> nat \<Rightarrow> real list \<times> real list \<times> real \<times> real list \<times> real" where
  "slot b j =
     (obs_memory b ! j, action_memory b ! j, reward_memory b ! j,
      obs_next_memory b ! j, terminal_memory b ! j)"

definition stored :: "transition \<Rightarrow> real list \<times> real list \<times> real \<times> real list \<times> real" where
  "stored t = (case t of (obs, action, reward, obs_next, done) \<Rightarrow>
                 (obs, action, reward, obs_next, if done then 0 else 1))"

text \<open>The arrays have the size the constructor gave them.\<close>

definition buffer_ok :: "ReplayBuffer \<Rightarrow> bool" where
  "buffer_ok b \<longleftrightarrow>
     0 < mem_size b \<and>
     length (obs_memory b) = mem_size b \<and>
     length (obs_next_memory b) = mem_size b \<and>
     length (action_memory b) = mem_size b \<and>
     length (reward_memory b) = mem_size b \<and>
     length (terminal_memory b) = mem_size b"

text \<open>A transition whose vectors have the widths of the buffer.\<close>

definition fits :: "ReplayBuffer \<Rightarrow> transition \<Rightarrow> bool" where
  "fits b t \<longleftrightarrow> (case t of (obs, action, reward, obs_next, done) \<Rightarrow>
     length obs = input_shape b \<and> length obs_next = input_shape b \<and>
     length action = actions_shape b)"

section \<open>torch operations on tensors\<close>

text \<open>
  \<^verbatim>\<open>T.cat(tensors)\<close> joins along dimension 0 (the default): the widths must agree and the
  rows are stacked. \<^verbatim>\<open>T.cat(tensors, dim=1)\<close> joins along dimension 1: the numbers of rows
  must agree and the rows are joined side by side. An empty list of tensors is refused.
\<close>

definition T_cat_dim0 :: "tensor2 list \<Rightarrow> py_error + tensor2" where
  "T_cat_dim0 ts =
     (case ts of
        [] \<Rightarrow> Inl EmptyTensorList
      | t # rest \<Rightarrow>
          if \<forall>u \<in> set rest. fst u = fst t
          then Inr (fst t, concat (map snd ts))
          else Inl SizeMismatch)"

definition T_cat_dim1 :: "tensor2 list \<Rightarrow> py_error + tensor2" where
  "T_cat_dim1 ts =
     (case ts of
        [] \<Rightarrow> Inl EmptyTensorList
      | t # rest \<Rightarrow>
          if \<forall>u \<in> set rest. length (snd u) = length (snd t)
          then Inr (sum_list (map fst ts),
                    map (\<lambda>i. concat (map (\<lambda>u. snd u ! i) ts)) [0..<length (snd t)])
          else Inl SizeMismatch)"

text \<open>
  Elementwise arithmetic of torch on two flat tensors (or two columns): as numpy's, with
  torch's error.
\<close>

definition torch_elementwise ::
  "(real \<Rightarrow> real \<Rightarrow> real) \<Rightarrow> real list \<Rightarrow> real list \<Rightarrow> py_error + real list" where
  "torch_elementwise f a b =
     (if length a = length b then Inr (map2 f a b)
      else if length a = 1 then Inr (map (f (hd a)) b)
      else if length b = 1 then Inr (map (\<lambda>x. f x (hd b)) a)
      else Inl SizeMismatch)"

text \<open>\<^verbatim>\<open>list.pop(i)\<close>: the element at \<open>i\<close> and the list without it, IndexError out of range.\<close>

definition py_pop :: "'a list \<Rightarrow> nat \<Rightarrow> py_error + ('a \<times> 'a list)" where
  "py_pop xs i = (if i < length xs then Inr (xs ! i, take i xs @ drop (Suc i) xs) else Inl IndexError)"

text \<open>A list comprehension whose body can raise: the first exception ends it.\<close>

fun sequence_e :: "(py_error + 'a) list \<Rightarrow> py_error + 'a list" where
  "sequence_e [] = Inr []"
| "sequence_e (x # xs) =
     (case x of
        Inl e \<Rightarrow> Inl e
      | Inr v \<Rightarrow> (case sequence_e xs of Inl e \<Rightarrow> Inl e | Inr vs \<Rightarrow> Inr (v # vs)))"

section \<open>Networks\<close>

text \<open>
  A network is its named parameters (each tensor flattened), its input width and its
  optimizer, whose state is of an abstract type \<open>'o\<close>.
\<close>

type_synonym state_dict = "(string \<times> real list) list"

record 'o ActorNetwork =
  an_n_inputs :: nat
  an_n_actions :: nat
  an_parameters :: state_dict
  an_optimizer :: 'o

record 'o CriticNetwork =
  cn_n_inputs :: nat
  cn_action_shape :: nat
  cn_parameters :: state_dict
  cn_optimizer :: 'o

text \<open>
  What torch computes and this development does not open: the layers of the actor before
  its final \<^verbatim>\<open>tanh\<close> (fc1, bn1, relu, fc2, bn2, relu, mu) and the whole forward pass of the
  critic, both as functions of the parameters and of one input row (linear layers, layer
  normalisation and relu all act on each row by itself); and the two optimizer updates
  (\<^verbatim>\<open>zero_grad\<close>, \<^verbatim>\<open>backward\<close>, \<^verbatim>\<open>step\<close>), as functions from the network and the tensors
  of the loss to the updated network.
\<close>

record 'o torch =
  actor_layers :: "state_dict \<Rightarrow> real list \<Rightarrow> real list"
  critic_layers :: "state_dict \<Rightarrow> real list \<Rightarrow> real list \<Rightarrow> real"
  critic_optimizer_step ::
    "'o CriticNetwork \<Rightarrow> real list \<Rightarrow> tensor2 \<Rightarrow> tensor2 \<Rightarrow> 'o CriticNetwork"
  actor_optimizer_step ::
    "'o ActorNetwork \<Rightarrow> 'o CriticNetwork \<Rightarrow> tensor2 \<Rightarrow> tensor2 \<Rightarrow> 'o ActorNetwork"

text \<open>
  \<^verbatim>\<open>T.tanh\<close> on one element of a float32 tensor, taken as the hyperbolic tangent
  correctly rounded to float32. It reaches 1 and -1, which the real \<open>tanh\<close> does not.
\<close>

definition T_tanh :: "real \<Rightarrow> real" where
  "T_tanh x = float32 (tanh x)"


definition ActorNetwork_forward ::
  "'o torch \<Rightarrow> 'o ActorNetwork \<Rightarrow> tensor2 \<Rightarrow> py_error + tensor2" where
  "ActorNetwork_forward be net state =
     (if fst state \<noteq> an_n_inputs net then Inl SizeMismatch
      else Inr (an_n_actions net,
                map (\<lambda>r. map T_tanh (actor_layers be (an_parameters net) r)) (snd state)))"

text \<open>
  \<^verbatim>\<open>CriticNetwork.forward\<close> on a batch: one value per row. The state and action batches
  must have the widths of \<^verbatim>\<open>fc1\<close> and \<^verbatim>\<open>action_value\<close>, and \<^verbatim>\<open>T.add\<close> needs as many action
  rows as state rows (or one).
\<close>

definition CriticNetwork_forward ::
  "'o torch \<Rightarrow> 'o CriticNetwork \<Rightarrow> tensor2 \<Rightarrow> tensor2 \<Rightarrow> py_error + real list" where
  "CriticNetwork_forward be net state action =
     (if fst state \<noteq> cn_n_inputs net \<or> fst action \<noteq> cn_action_shape net
      then Inl SizeMismatch
      else if length (snd state) = length (snd action)
      then Inr (map2 (critic_layers be (cn_parameters net)) (snd state) (snd action))
      else if length (snd action) = 1
      then Inr (map (\<lambda>r. critic_layers be (cn_parameters net) r (hd (snd action))) (snd state))
      else if length (snd state) = 1
      then Inr (map (critic_layers be (cn_parameters net) (hd (snd state))) (snd action))
      else Inl SizeMismatch)"

section \<open>Agent\<close>

record Box =
  low :: "real list"
  high :: "real list"

text \<open>The arguments of \<^verbatim>\<open>Agent_Multi.__init__\<close>, which it keeps as \<^verbatim>\<open>init_dict\<close>.\<close>

record init_dict =
  lr_actor :: real
  lr_critic :: real
  own_input_shape :: nat
  action_space :: Box
  arg_tau :: real
  other_input_shapes :: "nat list"
  other_actions_shapes :: "nat list"
  arg_gamma :: real
  max_size :: nat
  layer1_size :: nat
  layer2_size :: nat
  arg_batch_size :: nat
  noise_sigma :: real
  noise_theta :: real

record 'o Agent =
  agent_init_dict :: init_dict
  scale :: "real list"
  shift :: "real list"
  gamma :: real
  tau :: real
  memory :: ReplayBuffer
  batch_size :: nat
  actor :: "'o ActorNetwork"
  critic :: "'o CriticNetwork"
  target_actor :: "'o ActorNetwork"
  target_critic :: "'o CriticNetwork"
  noise :: OUActionNoise
  global_step :: nat
  episode_counter :: nat

subsection \<open>Soft update of the target networks\<close>

text \<open>
  The loop \<^verbatim>\<open>for name in state_dict: state_dict[name] = tau*state_dict[name].clone() +
  (1-tau)*target_dict[name].clone()\<close> over the named parameters of the online network;
  a name the target lacks raises KeyError. \<open>soft_blend\<close> is that expression on one
  component, as torch evaluates it on float32 tensors: \<open>tau\<close> is a Python float, so
  \<^verbatim>\<open>1-tau\<close> is a float64 subtraction; each of the two scalars is converted to float32 for
  its product with a tensor; the two products and the sum are float32 operations.
\<close>

definition soft_blend :: "real \<Rightarrow> real \<Rightarrow> real \<Rightarrow> real" where
  "soft_blend t online_param target_param =
     float32 (float32 (float32 t * online_param)
              + float32 (float32 (float64 (1 - t)) * target_param))"

fun blend :: "real \<Rightarrow> state_dict \<Rightarrow> state_dict \<Rightarrow> py_error + state_dict" where
  "blend t [] target = Inr []"
| "blend t ((name, p) # rest) target =
     (case map_of target name of
        None \<Rightarrow> Inl KeyError
      | Some q \<Rightarrow>
          (case torch_elementwise (soft_blend t) p q of
             Inl e \<Rightarrow> Inl e
           | Inr v \<Rightarrow>
               (case blend t rest target of
                  Inl e \<Rightarrow> Inl e
                | Inr vs \<Rightarrow> Inr ((name, v) # vs))))"

text \<open>
  \<^verbatim>\<open>load_state_dict\<close> (strict): the names given must be the names of the network, each
  tensor must have the size of the parameter it replaces, and every parameter then takes
  the value given under its name.
\<close>

definition load_state_dict :: "state_dict \<Rightarrow> state_dict \<Rightarrow> py_error + state_dict" where
  "load_state_dict own given =
     (if set (map fst given) \<noteq> set (map fst own) then Inl KeyError
      else if \<exists>(name, q) \<in> set own. map_option length (map_of given name) \<noteq> Some (length q)
      then Inl SizeMismatch
      else Inr (map (\<lambda>(name, q). (name, case map_of given name of Some v \<Rightarrow> v | None \<Rightarrow> q)) own))"

text \<open>
  \<^verbatim>\<open>_update_network_parameters(tau=None)\<close>: the critic pair first, then the actor pair.
  Only the parameters of the two target networks change.
\<close>

definition update_network_parameters :: "real option \<Rightarrow> 'o Agent \<Rightarrow> py_error + 'o Agent" where
  "update_network_parameters t ag =
     (let tau' = (case t of None \<Rightarrow> tau ag | Some v \<Rightarrow> v) in
      case blend tau' (cn_parameters (critic ag)) (cn_parameters (target_critic ag)) of
        Inl e \<Rightarrow> Inl e
      | Inr critic_state_dict \<Rightarrow>
     (case load_state_dict (cn_parameters (target_critic ag)) critic_state_dict of
        Inl e \<Rightarrow> Inl e
      | Inr tc \<Rightarrow>
     (case blend tau' (an_parameters (actor ag)) (an_parameters (target_actor ag)) of
        Inl e \<Rightarrow> Inl e
      | Inr actor_state_dict \<Rightarrow>
     (case load_state_dict (an_parameters (target_actor ag)) actor_state_dict of
        Inl e \<Rightarrow> Inl e
      | Inr ta \<Rightarrow>
          Inr (ag\<lparr>target_critic := (target_critic ag)\<lparr>cn_parameters := tc\<rparr>,
                  target_actor := (target_actor ag)\<lparr>an_parameters := ta\<rparr>\<rparr>)))))"

subsection \<open>Construction\<close>

text \<open>
  \<^verbatim>\<open>Agent_Multi.__init__\<close>. The four networks arrive with the parameters their random
  initialisation drew (\<open>actor0\<close>, \<open>critic0\<close>, \<open>target_actor0\<close>, \<open>target_critic0\<close>) and the
  fresh optimizer states \<open>opt_a\<close>, \<open>opt_c\<close>; the last step is
  \<^verbatim>\<open>self._update_network_parameters(tau=1)\<close>. \<^verbatim>\<open>(high - low) / 2.\<close> and
  \<^verbatim>\<open>(high + low) / 2.\<close> are numpy operations on the float64 bounds of the action space.
\<close>

definition Agent_Multi_init ::
  "init_dict \<Rightarrow> state_dict \<Rightarrow> state_dict \<Rightarrow> state_dict \<Rightarrow> state_dict \<Rightarrow> 'o \<Rightarrow> 'o \<Rightarrow>
   py_error + 'o Agent" where
  "Agent_Multi_init d actor0 critic0 target_actor0 target_critic0 opt_a opt_c =
     (case np_elementwise (\<lambda>h l. float64 (float64 (h - l) / 2))
             (high (action_space d)) (low (action_space d)) of
        Inl e \<Rightarrow> Inl e
      | Inr sc \<Rightarrow>
     (case np_elementwise (\<lambda>h l. float64 (float64 (h + l) / 2))
             (high (action_space d)) (low (action_space d)) of
        Inl e \<Rightarrow> Inl e
      | Inr sh \<Rightarrow>
          (let n_act = length (low (action_space d));
               n_critic = own_input_shape d + sum_list (other_input_shapes d)
                            + sum_list (other_actions_shapes d)
           in update_network_parameters (Some 1)
                \<lparr>agent_init_dict = d, scale = sc, shift = sh,
                 gamma = arg_gamma d, tau = arg_tau d,
                 memory = ReplayBuffer_init (max_size d) (own_input_shape d) n_act,
                 batch_size = arg_batch_size d,
                 actor = \<lparr>an_n_inputs = own_input_shape d, an_n_actions = n_act,
                          an_parameters = actor0, an_optimizer = opt_a\<rparr>,
                 critic = \<lparr>cn_n_inputs = n_critic, cn_action_shape = n_act,
                           cn_parameters = critic0, cn_optimizer = opt_c\<rparr>,
                 target_actor = \<lparr>an_n_inputs = own_input_shape d, an_n_actions = n_act,
                                 an_parameters = target_actor0, an_optimizer = opt_a\<rparr>,
                 target_critic = \<lparr>cn_n_inputs = n_critic, cn_action_shape = n_act,
                                  cn_parameters = target_critic0, cn_optimizer = opt_c\<rparr>,
                 noise = OUActionNoise_init (replicate n_act 0) (noise_sigma d) (noise_theta d)
                           (1 / 5) None,
                 global_step = 0, episode_counter = 0\<rparr>)))"

subsection \<open>Acting and remembering\<close>


text \<open>\<^verbatim>\<open>remember\<close> (the summary writer's log line is not represented).\<close>

definition remember :: "transition \<Rightarrow> 'o Agent \<Rightarrow> py_error + 'o Agent" where
  "remember t ag =
     (case store_transition (memory ag) t of
        Inl e \<Rightarrow> Inl e
      | Inr m \<Rightarrow>
          Inr (ag\<lparr>memory := m,
                  episode_counter := (if snd (snd (snd (snd t))) then episode_counter ag + 1
                                      else episode_counter ag),
                  global_step := global_step ag + 1\<rparr>))"

subsection \<open>Learning\<close>

text \<open>
  \<^verbatim>\<open>get_batch_idxs\<close>: \<^verbatim>\<open>np.random.choice(max_mem, batch_size)\<close> draws \<open>batch_size\<close> indices
  below \<open>max_mem\<close> with replacement; \<open>rnd\<close> is the stream of random numbers it reads.
  It refuses to draw from an empty range.
\<close>

definition get_batch_idxs :: "(nat \<Rightarrow> nat) \<Rightarrow> ReplayBuffer \<Rightarrow> nat \<Rightarrow> py_error + nat list" where
  "get_batch_idxs rnd b n =
     (let max_mem = min (mem_cntr b) (mem_size b) in
      if max_mem = 0 \<and> 0 < n then Inl ValueError
      else Inr (map (\<lambda>i. rnd i mod max_mem) [0..<n]))"

text \<open>
  \<^verbatim>\<open>reward.view(batch_size, 1) + gamma * target_critic_next_value * done.view(batch_size, 1)\<close>.
  \<^verbatim>\<open>view\<close> refuses a tensor that does not have \<open>batch_size\<close> elements.
\<close>

definition td_target ::
  "nat \<Rightarrow> real \<Rightarrow> real list \<Rightarrow> real list \<Rightarrow> real list \<Rightarrow> py_error + real list" where
  "td_target bs g reward target_critic_next_value done =
     (if length reward \<noteq> bs \<or> length done \<noteq> bs then Inl SizeMismatch
      else
        (case torch_elementwise (*) (map (\<lambda>q. g * q) target_critic_next_value) done of
           Inl e \<Rightarrow> Inl e
         | Inr bootstrap \<Rightarrow> torch_elementwise (+) reward bootstrap))"

text \<open>The tensors a learning step has computed when it reaches the critic's loss.\<close>

record learn_locals =
  target_value :: "real list"
  target_critic_next_value :: "real list"
  critic_value :: "real list"
  input_value_fn :: tensor2
  own_actual_action :: tensor2
  own_obs :: tensor2

text \<open>\<^verbatim>\<open>Agent_Single.learn\<close> from the fetch of the minibatch to the TD target.\<close>

definition Agent_Single_learn_locals ::
  "'o torch \<Rightarrow> nat list \<Rightarrow> 'o Agent \<Rightarrow> py_error + learn_locals" where
  "Agent_Single_learn_locals be batch_idxs self =
     (case get_samples_from_buffer (memory self) batch_idxs of
        Inl e \<Rightarrow> Inl e
      | Inr (state, actual_action, reward, new_state, done) \<Rightarrow>
     (case ActorNetwork_forward be (target_actor self) new_state of
        Inl e \<Rightarrow> Inl e
      | Inr target_next_actions \<Rightarrow>
     (case CriticNetwork_forward be (target_critic self) new_state target_next_actions of
        Inl e \<Rightarrow> Inl e
      | Inr tcnv \<Rightarrow>
     (case CriticNetwork_forward be (critic self) state actual_action of
        Inl e \<Rightarrow> Inl e
      | Inr cv \<Rightarrow>
     (case td_target (batch_size self) (gamma self) reward tcnv done of
        Inl e \<Rightarrow> Inl e
      | Inr tv \<Rightarrow>
          Inr \<lparr>target_value = tv, target_critic_next_value = tcnv, critic_value = cv,
               input_value_fn = state,
               own_actual_action = actual_action, own_obs = state\<rparr>)))))"

text \<open>
  The rest of a learning step, which the two agents share: the critic's optimizer step on
  the loss between TD target and critic value, the actor's optimizer step on the critic's
  value of the actor's own action, and the soft update with the agent's \<open>tau\<close>.
\<close>

definition learn_update :: "'o torch \<Rightarrow> learn_locals \<Rightarrow> 'o Agent \<Rightarrow> py_error + 'o Agent" where
  "learn_update be L self =
     (let critic' = critic_optimizer_step be (critic self) (target_value L)
                      (input_value_fn L) (own_actual_action L) in
      case ActorNetwork_forward be (actor self) (own_obs L) of
        Inl e \<Rightarrow> Inl e
      | Inr mu \<Rightarrow>
     (case CriticNetwork_forward be critic' (input_value_fn L) mu of
        Inl e \<Rightarrow> Inl e
      | Inr actor_performance \<Rightarrow>
          update_network_parameters None
            (self\<lparr>critic := critic',
                  actor := actor_optimizer_step be (actor self) critic'
                             (input_value_fn L) (own_obs L)\<rparr>)))"

definition Agent_Single_learn ::
  "'o torch \<Rightarrow> (nat \<Rightarrow> nat) \<Rightarrow> 'o Agent list \<Rightarrow> nat \<Rightarrow> 'o Agent \<Rightarrow> py_error + 'o Agent" where
  "Agent_Single_learn be rnd agents_list own_idx self =
     (if mem_cntr (memory self) < batch_size self then Inr self
      else
        (case get_batch_idxs rnd (memory self) (batch_size self) of
           Inl e \<Rightarrow> Inl e
         | Inr batch_idxs \<Rightarrow>
        (case Agent_Single_learn_locals be batch_idxs self of
           Inl e \<Rightarrow> Inl e
         | Inr L \<Rightarrow> learn_update be L self)))"

text \<open>
  \<^verbatim>\<open>Agent_Multi.learn\<close> from the fetch of every agent's minibatch to the critic value.
  Unpacking \<^verbatim>\<open>zip(*[])\<close> into five names raises ValueError for an empty agent list.
\<close>

definition others_features :: "tensor2 \<Rightarrow> tensor2 list \<Rightarrow> py_error + tensor2" where
  "others_features joint_state others =
     (case T_cat_dim0 others of
        Inl e \<Rightarrow> Inl e
      | Inr others_cat \<Rightarrow> T_cat_dim1 [joint_state, others_cat])"

definition Agent_Multi_learn_locals ::
  "'o torch \<Rightarrow> nat list \<Rightarrow> 'o Agent list \<Rightarrow> nat \<Rightarrow> 'o Agent \<Rightarrow> py_error + learn_locals" where
  "Agent_Multi_learn_locals be batch_idxs agents_list own_idx self =
     (case sequence_e (map (\<lambda>ag. get_samples_from_buffer (memory ag) batch_idxs) agents_list) of
        Inl e \<Rightarrow> Inl e
      | Inr samples \<Rightarrow>
     (if samples = [] then Inl ValueError
      else
        let obs_n = map (\<lambda>(obs, act, rwd, new_obs, dn). obs) samples;
            actual_action_n = map (\<lambda>(obs, act, rwd, new_obs, dn). act) samples;
            reward_n = map (\<lambda>(obs, act, rwd, new_obs, dn). rwd) samples;
            new_obs_n = map (\<lambda>(obs, act, rwd, new_obs, dn). new_obs) samples;
            done_n = map (\<lambda>(obs, act, rwd, new_obs, dn). dn) samples
        in
     (case T_cat_dim1 obs_n of
        Inl e \<Rightarrow> Inl e
      | Inr state_t \<Rightarrow>
     (case T_cat_dim1 new_obs_n of
        Inl e \<Rightarrow> Inl e
      | Inr new_state_t \<Rightarrow>
     (case sequence_e (map (\<lambda>(ag, new_obs). ActorNetwork_forward be (target_actor ag) new_obs)
                        (zip agents_list new_obs_n)) of
        Inl e \<Rightarrow> Inl e
      | Inr target_next_action_n \<Rightarrow>
     (case py_pop target_next_action_n own_idx of
        Inl e \<Rightarrow> Inl e
      | Inr (own_next_action, other_next_actions) \<Rightarrow>
     (case others_features new_state_t other_next_actions of
        Inl e \<Rightarrow> Inl e
      | Inr input_target_value_fn \<Rightarrow>
     (case CriticNetwork_forward be (target_critic self) input_target_value_fn own_next_action of
        Inl e \<Rightarrow> Inl e
      | Inr tcnv \<Rightarrow>
     (case td_target (batch_size self) (gamma self) (reward_n ! own_idx)
             tcnv (done_n ! own_idx) of
        Inl e \<Rightarrow> Inl e
      | Inr tv \<Rightarrow>
     (case py_pop actual_action_n own_idx of
        Inl e \<Rightarrow> Inl e
      | Inr (own_action, other_actions) \<Rightarrow>
     (case others_features state_t other_actions of
        Inl e \<Rightarrow> Inl e
      | Inr ivf \<Rightarrow>
     (case CriticNetwork_forward be (critic self) ivf own_action of
        Inl e \<Rightarrow> Inl e
      | Inr cv \<Rightarrow>
          Inr \<lparr>target_value = tv, target_critic_next_value = tcnv, critic_value = cv,
               input_value_fn = ivf,
               own_actual_action = own_action, own_obs = obs_n ! own_idx\<rparr>))))))))))))"

definition Agent_Multi_learn ::
  "'o torch \<Rightarrow> (nat \<Rightarrow> nat) \<Rightarrow> 'o Agent list \<Rightarrow> nat \<Rightarrow> 'o Agent \<Rightarrow> py_error + 'o Agent" where
  "Agent_Multi_learn be rnd agents_list own_idx self =
     (if mem_cntr (memory self) < batch_size self then Inr self
      else
        (case get_batch_idxs rnd (memory self) (batch_size self) of
           Inl e \<Rightarrow> Inl e
         | Inr batch_idxs \<Rightarrow>
        (case Agent_Multi_learn_locals be batch_idxs agents_list own_idx self of
           Inl e \<Rightarrow> Inl e
         | Inr L \<Rightarrow> learn_update be L self)))"

subsection \<open>Checkpoints\<close>

text \<open>The dictionary \<^verbatim>\<open>save_models\<close> builds, and a file system holding such dictionaries.\<close>

record 'o checkpoint =
  ck_init_dict :: init_dict
  ck_actor :: state_dict
  ck_critic :: state_dict
  ck_target_actor :: state_dict
  ck_target_critic :: state_dict
  ck_actor_optimizer :: 'o
  ck_critic_optimizer :: 'o

type_synonym 'o filesystem = "string \<Rightarrow> 'o checkpoint option"

text \<open>
  \<^verbatim>\<open>torch.save(obj, f)\<close>: \<open>f\<close> is a required positional argument, and a call that leaves
  it out raises TypeError.
\<close>

definition T_save ::
  "'o checkpoint \<Rightarrow> string option \<Rightarrow> 'o filesystem \<Rightarrow> py_error + 'o filesystem" where
  "T_save obj f fs = (case f of None \<Rightarrow> Inl TypeError | Some path \<Rightarrow> Inr (fs(path \<mapsto> obj)))"

text \<open>\<^verbatim>\<open>save_models\<close> ends with \<^verbatim>\<open>T.save(agent_networks_state_dict)\<close>: no file argument.\<close>

definition save_models :: "string \<Rightarrow> 'o Agent \<Rightarrow> 'o filesystem \<Rightarrow> py_error + 'o filesystem" where
  "save_models filename self fs =
     T_save
       \<lparr>ck_init_dict = agent_init_dict self,
        ck_actor = an_parameters (actor self),
        ck_critic = cn_parameters (critic self),
        ck_target_actor = an_parameters (target_actor self),
        ck_target_critic = cn_parameters (target_critic self),
        ck_actor_optimizer = an_optimizer (actor self),
        ck_critic_optimizer = cn_optimizer (critic self)\<rparr>
       None fs"

text \<open>
  The names bound at module level: the imports (\<^verbatim>\<open>import torch as T\<close> binds \<open>T\<close>, not
  \<open>torch\<close>) and the classes. A name that is not bound raises NameError where it is read.
\<close>

definition module_globals :: "string list" where
  "module_globals =
     [''os'', ''Path'', ''Box'', ''T'', ''nn'', ''F'', ''optim'', ''np'', ''SummaryWriter'',
      ''OUActionNoise'', ''ReplayBuffer'', ''CriticNetwork'', ''ActorNetwork'',
      ''Agent_Multi'', ''Agent_Single'']"

text \<open>
  \<^verbatim>\<open>init_from_save\<close>: \<^verbatim>\<open>save_dict = torch.load(filename)\<close>, a new instance from the saved
  \<^verbatim>\<open>init_dict\<close> (whose random initialisation draws \<open>a0\<close>, \<open>c0\<close>, \<open>ta0\<close>, \<open>tc0\<close>), then the six
  \<^verbatim>\<open>load_state_dict\<close> calls.
\<close>

definition init_from_save ::
  "state_dict \<Rightarrow> state_dict \<Rightarrow> state_dict \<Rightarrow> state_dict \<Rightarrow> 'o \<Rightarrow> 'o \<Rightarrow>
   string \<Rightarrow> 'o filesystem \<Rightarrow> py_error + 'o Agent" where
  "init_from_save a0 c0 ta0 tc0 opt_a opt_c filename fs =
     (if ''torch'' \<notin> set module_globals then Inl NameError
      else
        (case fs filename of
           None \<Rightarrow> Inl FileNotFoundError
         | Some save_dict \<Rightarrow>
        (case Agent_Multi_init (ck_init_dict save_dict) a0 c0 ta0 tc0 opt_a opt_c of
           Inl e \<Rightarrow> Inl e
         | Inr inst \<Rightarrow>
        (case load_state_dict (an_parameters (actor inst)) (ck_actor save_dict) of
           Inl e \<Rightarrow> Inl e
         | Inr a \<Rightarrow>
        (case load_state_dict (cn_parameters (critic inst)) (ck_critic save_dict) of
           Inl e \<Rightarrow> Inl e
         | Inr c \<Rightarrow>
        (case load_state_dict (an_parameters (target_actor inst)) (ck_target_actor save_dict) of
           Inl e \<Rightarrow> Inl e
         | Inr ta \<Rightarrow>
        (case load_state_dict (cn_parameters (target_critic inst)) (ck_target_critic save_dict) of
           Inl e \<Rightarrow> Inl e
         | Inr tc \<Rightarrow>
             Inr (inst\<lparr>agent_init_dict := ck_init_dict save_dict,
                       actor := (actor inst)\<lparr>an_parameters := a,
                                             an_optimizer := ck_actor_optimizer save_dict\<rparr>,
                       critic := (critic inst)\<lparr>cn_parameters := c,
                                               cn_optimizer := ck_critic_optimizer save_dict\<rparr>,
                       target_actor := (target_actor inst)\<lparr>an_parameters := ta\<rparr>,
                       target_critic := (target_critic inst)\<lparr>cn_parameters := tc\<rparr>\<rparr>))))))))"

section \<open>Notions used in the statements\<close>

text \<open>
  What the first sample after \<^verbatim>\<open>reset\<close> is when \<open>sigma\<close> is zero: the update formula of
  \<^verbatim>\<open>__call__\<close> at \<open>x_prev = x0\<close> (the zero vector when no \<open>x0\<close> was given).
\<close>

definition first_sample :: "OUActionNoise \<Rightarrow> real list" where
  "first_sample s =
     map2 (\<lambda>x m. x + ou_theta s * (m - x) * ou_dt s)
       (case ou_x0 s of Some v \<Rightarrow> v | None \<Rightarrow> replicate (length (ou_mu s)) 0) (ou_mu s)"

text \<open>
  The specification's formula for the same sample, \<^verbatim>\<open>mu + theta*(mu-x0)*dt\<close>, written as
  the specification words it.
\<close>

definition spec_first_sample :: "OUActionNoise \<Rightarrow> real list" where
  "spec_first_sample s =
     map2 (\<lambda>m x. m + ou_theta s * (m - x) * ou_dt s) (ou_mu s)
       (case ou_x0 s of Some v \<Rightarrow> v | None \<Rightarrow> replicate (length (ou_mu s)) 0)"


text \<open>The buffer after one transition of fitting widths has been written at the cursor.\<close>

definition write_slot :: "ReplayBuffer \<Rightarrow> transition \<Rightarrow> ReplayBuffer" where
  "write_slot b t = (case t of (obs, action, reward, obs_next, done) \<Rightarrow>
     b\<lparr>obs_memory := (obs_memory b)[mem_cntr b mod mem_size b := obs],
       obs_next_memory := (obs_next_memory b)[mem_cntr b mod mem_size b := obs_next],
       action_memory := (action_memory b)[mem_cntr b mod mem_size b := action],
       reward_memory := (reward_memory b)[mem_cntr b mod mem_size b := reward],
       terminal_memory :=
         (terminal_memory b)[mem_cntr b mod mem_size b := (if done then 0 else 1)],
       mem_cntr := mem_cntr b + 1\<rparr>)"

text \<open>
  Two parameter dictionaries of one architecture: the same names in the same order, no
  name twice, tensors of the same sizes. The constructor builds each target network with
  the arguments of its online network, so the pairs it makes are of this kind.
\<close>

definition same_architecture :: "state_dict \<Rightarrow> state_dict \<Rightarrow> bool" where
  "same_architecture p q \<longleftrightarrow>
     map (\<lambda>(name, v). (name, length v)) p = map (\<lambda>(name, v). (name, length v)) q \<and>
     distinct (map fst p)"

text \<open>The blend of two such dictionaries, parameter by parameter and component by component.\<close>

definition blended :: "real \<Rightarrow> state_dict \<Rightarrow> state_dict \<Rightarrow> state_dict" where
  "blended t p q = map2 (\<lambda>(name, x) (name', y). (name, map2 (soft_blend t) x y)) p q"

text \<open>
  The specification's rule for one component, \<^verbatim>\<open>tau * online_param + (1-tau) * target_param\<close>,
  over the reals.
\<close>

definition spec_soft_update :: "real \<Rightarrow> real \<Rightarrow> real \<Rightarrow> real" where
  "spec_soft_update t online_param target_param =
     t * online_param + (1 - t) * target_param"

text \<open>
  \<open>soft_updated t online target new\<close>: the dictionary \<open>new\<close> has the names and the sizes of
  \<open>online\<close>, and each of its components is \<^verbatim>\<open>tau * online + (1-tau) * target\<close> at that place,
  every operation rounded as float32 arithmetic rounds it (\<^verbatim>\<open>1-tau\<close> as float64).
  \<open>near_spec_soft_update\<close>: each component of \<open>new\<close> is within \<open>2\<close> to the power \<open>-21\<close>,
  relative to the larger of the two values blended, of the specification's rule over the
  reals.
\<close>

definition soft_updated :: "real \<Rightarrow> state_dict \<Rightarrow> state_dict \<Rightarrow> state_dict \<Rightarrow> bool" where
  "soft_updated t online target new \<longleftrightarrow>
     map fst new = map fst online \<and>
     (\<forall>i < length online.
        length (snd (new ! i)) = length (snd (online ! i)) \<and>
        (\<forall>j < length (snd (online ! i)).
           snd (new ! i) ! j =
             float32 (float32 (float32 t * snd (online ! i) ! j)
                      + float32 (float32 (float64 (1 - t)) * snd (target ! i) ! j))))"

definition near_spec_soft_update ::
  "real \<Rightarrow> state_dict \<Rightarrow> state_dict \<Rightarrow> state_dict \<Rightarrow> bool" where
  "near_spec_soft_update t online target new \<longleftrightarrow>
     (\<forall>i < length online. \<forall>j < length (snd (online ! i)).
        \<bar>snd (new ! i) ! j - spec_soft_update t (snd (online ! i) ! j) (snd (target ! i) ! j)\<bar>
          \<le> max \<bar>snd (online ! i) ! j\<bar> \<bar>snd (target ! i) ! j\<bar> / 2 ^ 21)"

text \<open>A dictionary of float32 tensors: every component is a float32 number.\<close>

definition float32_params :: "state_dict \<Rightarrow> bool" where
  "float32_params p \<longleftrightarrow> (\<forall>(name, v) \<in> set p. \<forall>x \<in> set v. float32 x = x)"

text \<open>
  A second run of a joint update: the agent list in which every agent but the one at
  \<open>own_idx\<close> has its reward array and its terminal array replaced (by the pair at its
  position in \<open>rts\<close>), and everything else is as it was.
\<close>

definition with_other_rewards ::
  "nat \<Rightarrow> (real list \<times> real list) list \<Rightarrow> 'o Agent list \<Rightarrow> 'o Agent list" where
  "with_other_rewards own_idx rts agents_list =
     map (\<lambda>j. if j = own_idx then agents_list ! j
              else (agents_list ! j)
                     \<lparr>memory := (memory (agents_list ! j))
                        \<lparr>reward_memory := fst (rts ! j), terminal_memory := snd (rts ! j)\<rparr>\<rparr>)
       [0..<length agents_list]"

text \<open>Two fetched minibatches that agree on observations, actions and next observations.\<close>

definition same_features ::
  "tensor2 \<times> tensor2 \<times> real list \<times> tensor2 \<times> real list \<Rightarrow>
   tensor2 \<times> tensor2 \<times> real list \<times> tensor2 \<times> real list \<Rightarrow> bool" where
  "same_features s s' \<longleftrightarrow>
     fst s = fst s' \<and> fst (snd s) = fst (snd s') \<and>
     fst (snd (snd (snd s))) = fst (snd (snd (snd s')))"

subsection \<open>Concrete agents\<close>

text \<open>
  A small agent for the concrete instances: observations and actions of width one, a
  buffer of capacity four holding two transitions (the second terminal), batch size two,
  and one named parameter in each network.
\<close>

definition demo_torch :: "unit torch" where
  "demo_torch =
     \<lparr>actor_layers = (\<lambda>sd r. [0]),
      critic_layers = (\<lambda>sd r a. sum_list r + sum_list a),
      critic_optimizer_step = (\<lambda>net tv inp act. net),
      actor_optimizer_step = (\<lambda>net cnet inp obs. net)\<rparr>"

definition demo_agent :: "unit Agent" where
  "demo_agent =
     \<lparr>agent_init_dict =
        \<lparr>lr_actor = 1/1000, lr_critic = 1/1000, own_input_shape = 1,
         action_space = \<lparr>low = [-2], high = [4]\<rparr>, arg_tau = 1/2,
         other_input_shapes = [1], other_actions_shapes = [1], arg_gamma = 1/2,
         max_size = 4, layer1_size = 400, layer2_size = 300, arg_batch_size = 2,
         noise_sigma = 1, noise_theta = 1/5\<rparr>,
      scale = [3], shift = [1], gamma = 1/2, tau = 1/2,
      memory =
        \<lparr>mem_size = 4, mem_cntr = 2, input_shape = 1, actions_shape = 1,
         obs_memory = [[1], [2], [0], [0]],
         obs_next_memory = [[2], [3], [0], [0]],
         action_memory = [[1], [0], [0], [0]],
         reward_memory = [5, 7, 0, 0],
         terminal_memory = [1, 0, 0, 0]\<rparr>,
      batch_size = 2,
      actor = \<lparr>an_n_inputs = 1, an_n_actions = 1,
               an_parameters = [(''mu.weight'', [1])], an_optimizer = ()\<rparr>,
      critic = \<lparr>cn_n_inputs = 3, cn_action_shape = 1,
                cn_parameters = [(''q.weight'', [1, 2])], cn_optimizer = ()\<rparr>,
      target_actor = \<lparr>an_n_inputs = 1, an_n_actions = 1,
                      an_parameters = [(''mu.weight'', [0])], an_optimizer = ()\<rparr>,
      target_critic = \<lparr>cn_n_inputs = 3, cn_action_shape = 1,
                       cn_parameters = [(''q.weight'', [0, 4])], cn_optimizer = ()\<rparr>,
      noise = \<lparr>ou_theta = 1/5, ou_mu = [0], ou_sigma = 1, ou_dt = 1/5, ou_x0 = None,
               ou_x_prev = [0]\<rparr>,
      global_step = 2, episode_counter = 1\<rparr>"

text \<open>
  The same agent with critics sized for its own observation alone, as the single agent
  builds them.
\<close>

definition demo_single :: "unit Agent" where
  "demo_single =
     demo_agent
       \<lparr>agent_init_dict :=
          (agent_init_dict demo_agent)\<lparr>other_input_shapes := [0], other_actions_shapes := [0]\<rparr>,
        critic := \<lparr>cn_n_inputs = 1, cn_action_shape = 1,
                  cn_parameters = [(''q.weight'', [1, 2])], cn_optimizer = ()\<rparr>,
        target_critic := \<lparr>cn_n_inputs = 1, cn_action_shape = 1,
                         cn_parameters = [(''q.weight'', [0, 4])], cn_optimizer = ()\<rparr>\<rparr>"

text \<open>
  The demonstration agent built for two other agents (observations of width one each,
  one action of width one, so critics of input width four) with batch size zero, and the
  demonstration agent with a buffer of capacity one.
\<close>

definition demo_empty_batch :: "unit Agent" where
  "demo_empty_batch =
     demo_agent
       \<lparr>agent_init_dict :=
          (agent_init_dict demo_agent)\<lparr>other_input_shapes := [1, 1], arg_batch_size := 0\<rparr>,
        batch_size := 0,
        critic := \<lparr>cn_n_inputs = 4, cn_action_shape = 1,
                  cn_parameters = [(''q.weight'', [1, 2])], cn_optimizer = ()\<rparr>,
        target_critic := \<lparr>cn_n_inputs = 4, cn_action_shape = 1,
                         cn_parameters = [(''q.weight'', [0, 4])], cn_optimizer = ()\<rparr>\<rparr>"

definition demo_small_buffer :: "unit Agent" where
  "demo_small_buffer =
     demo_agent
       \<lparr>memory :=
          \<lparr>mem_size = 1, mem_cntr = 2, input_shape = 1, actions_shape = 1,
           obs_memory = [[2]], obs_next_memory = [[3]], action_memory = [[0]],
           reward_memory = [7], terminal_memory = [0]\<rparr>\<rparr>"



text \<open>
  The demonstration agent and its single-agent variant with a target actor whose
  parameter is 16: under \<open>linear_torch\<close> its action on the stored next observations is
  the float32 \<open>tanh\<close> of 32 and of 48, which is 1.
\<close>

definition demo_bold :: "unit Agent" where
  "demo_bold =
     demo_agent
       \<lparr>target_actor := \<lparr>an_n_inputs = 1, an_n_actions = 1,
                        an_parameters = [(''mu.weight'', [16])], an_optimizer = ()\<rparr>\<rparr>"

definition demo_bold_single :: "unit Agent" where
  "demo_bold_single =
     demo_single
       \<lparr>target_actor := \<lparr>an_n_inputs = 1, an_n_actions = 1,
                        an_parameters = [(''mu.weight'', [16])], an_optimizer = ()\<rparr>\<rparr>"

section \<open>Rounding\<close>

text \<open>
  Facts about rounding to nearest: it is monotone and odd, it leaves a number with a
  short enough significand as it is, and its relative error is at most \<open>2\<close> to the
  power \<open>-p\<close>.
\<close>

lemma rne_of_int [simp]: "rne (of_int n) = n"
  by (simp add: rne_def)


lemma rne_error: "\<bar>of_int (rne y) - y\<bar> \<le> 1/2"
proof -
  have "of_int \<lfloor>y\<rfloor> \<le> y" "y < of_int \<lfloor>y\<rfloor> + 1" by linarith+
  then show ?thesis by (auto simp: rne_def Let_def)
qed




lemma exponent_bounds:
  assumes "x \<noteq> 0"
  shows "2 powr of_int (float_exponent x) \<le> \<bar>x\<bar>"
    and "\<bar>x\<bar> < 2 powr (of_int (float_exponent x) + 1)"
proof -
  have p: "0 < \<bar>x\<bar>" using assms by simp
  have "of_int (float_exponent x) \<le> log 2 \<bar>x\<bar>" by (simp add: float_exponent_def)
  then show "2 powr of_int (float_exponent x) \<le> \<bar>x\<bar>"
    using p by (simp add: le_log_iff)
  have "log 2 \<bar>x\<bar> < of_int (float_exponent x) + 1"
    unfolding float_exponent_def by linarith
  then show "\<bar>x\<bar> < 2 powr (of_int (float_exponent x) + 1)"
    using p by (simp add: log_less_iff)
qed

lemma exponent_unique:
  assumes "2 powr of_int e \<le> \<bar>x\<bar>" and "\<bar>x\<bar> < 2 powr (of_int e + 1)"
  shows "float_exponent x = e"
proof -
  have p: "0 < \<bar>x\<bar>" using assms(1) by (smt (verit) powr_gt_zero)
  have "of_int e \<le> log 2 \<bar>x\<bar>" using assms(1) p by (simp add: le_log_iff)
  moreover have "log 2 \<bar>x\<bar> < of_int e + 1" using assms(2) p by (simp add: log_less_iff)
  ultimately show ?thesis unfolding float_exponent_def by linarith
qed

lemma fl_zero [simp]: "fl p 0 = 0"
  by (simp add: fl_def)


lemma float_exponent_minus [simp]: "float_exponent (- x) = float_exponent x"
  by (simp add: float_exponent_def)



lemma ulp_times:
  assumes "1 \<le> p"
  shows "2 ^ (p - 1) * 2 powr (of_int e - (of_nat p - 1)) = (2::real) powr of_int e"
proof -
  have "(2::real) ^ (p - 1) = 2 powr (of_nat p - 1)"
    using assms by (simp add: powr_realpow [symmetric] of_nat_diff)
  then show ?thesis by (simp add: powr_add [symmetric])
qed






lemma fl_error:
  assumes p: "1 \<le> p"
  shows "\<bar>fl p x - x\<bar> \<le> \<bar>x\<bar> / 2 ^ p"
proof (cases "x = 0")
  case True
  then show ?thesis by simp
next
  case False
  let ?e = "float_exponent x"
  let ?u = "2 powr (of_int ?e - (of_nat p - 1)) :: real"
  have u: "0 < ?u" by simp
  have f: "fl p x = of_int (rne (x / ?u)) * ?u" using False by (simp add: fl_def Let_def)
  have "fl p x - x = (of_int (rne (x / ?u)) - x / ?u) * ?u"
    using u by (simp add: f left_diff_distrib)
  then have "\<bar>fl p x - x\<bar> = \<bar>of_int (rne (x / ?u)) - x / ?u\<bar> * ?u"
    using u by (simp add: abs_mult)
  also have "\<dots> \<le> 1/2 * ?u"
    using rne_error [of "x / ?u"] u by (intro mult_right_mono) simp_all
  also have "1/2 * ?u = 2 powr of_int ?e / 2 ^ p"
  proof -
    have "(2::real) ^ p = 2 * 2 ^ (p - 1)" using p by (cases p) simp_all
    then show ?thesis using ulp_times [OF p, of ?e, symmetric] by simp
  qed
  also have "\<dots> \<le> \<bar>x\<bar> / 2 ^ p"
    using exponent_bounds(1) [OF False] by (simp add: divide_right_mono)
  finally show ?thesis .
qed

lemma fl_half: "fl p (x / 2) = fl p x / 2"
proof (cases "x = 0")
  case True
  then show ?thesis by simp
next
  case False
  let ?e = "float_exponent x"
  let ?u = "2 powr (of_int ?e - (of_nat p - 1)) :: real"
  have u0: "?u \<noteq> 0" by simp
  have "2 powr of_int (?e - 1) \<le> \<bar>x / 2\<bar>" "\<bar>x / 2\<bar> < 2 powr (of_int (?e - 1) + 1)"
    using exponent_bounds [OF False] by (simp_all add: powr_diff powr_add)
  then have e: "float_exponent (x / 2) = ?e - 1" by (rule exponent_unique)
  have "(of_int (?e - 1) - (of_nat p - 1) :: real) = (of_int ?e - (of_nat p - 1)) - 1"
    by simp
  then have u: "(2::real) powr (of_int (?e - 1) - (of_nat p - 1)) = ?u / 2"
    by (simp only: powr_diff) simp
  have h: "x / 2 \<noteq> 0" using False by simp
  have "fl p (x / 2) = of_int (rne ((x / 2) / (?u / 2))) * (?u / 2)"
    unfolding fl_def Let_def e u using h by (simp only: if_False)
  also have "(x / 2) / (?u / 2) = x / ?u" by simp
  also have "of_int (rne (x / ?u)) * (?u / 2) = fl p x / 2"
    using False by (simp add: fl_def Let_def)
  finally show ?thesis .
qed

lemma fl_representable:
  assumes m: "\<bar>m\<bar> < 2 ^ p" and p: "1 \<le> p"
  shows "fl p (of_int m * 2 powr of_int k) = of_int m * 2 powr of_int k"
proof (cases "m = 0")
  case True
  then show ?thesis by simp
next
  case False
  let ?x = "of_int m * 2 powr of_int k :: real"
  let ?e = "float_exponent ?x"
  let ?u = "2 powr (of_int ?e - (of_nat p - 1)) :: real"
  have x0: "?x \<noteq> 0" using False by simp
  have ax: "\<bar>?x\<bar> = of_int \<bar>m\<bar> * 2 powr of_int k" by (simp add: abs_mult)
  have hi: "(2::real) powr of_int ?e \<le> of_int \<bar>m\<bar> * 2 powr of_int k"
    using exponent_bounds(1) [OF x0] unfolding ax .
  have "(of_int \<bar>m\<bar> :: real) < of_int (2 ^ p)" using m by (simp only: of_int_less_iff)
  then have "(of_int \<bar>m\<bar> :: real) < 2 ^ p" by simp
  then have "(of_int \<bar>m\<bar> :: real) * 2 powr of_int k < 2 ^ p * 2 powr of_int k"
    by (intro mult_strict_right_mono) simp_all
  also have "\<dots> = 2 powr (of_int k + of_nat p)" by (simp add: powr_add powr_realpow)
  finally have lt: "(of_int \<bar>m\<bar> :: real) * 2 powr of_int k < 2 powr (of_int k + of_nat p)" .
  have "(2::real) powr of_int ?e < 2 powr (of_int k + of_nat p)"
    using hi lt by (rule le_less_trans)
  then have "of_int ?e < (of_int k + of_nat p :: real)" by simp
  then have "?e < k + int p" by linarith
  then have "0 \<le> k + int p - 1 - ?e" by simp
  then obtain j :: nat where j: "k + int p - 1 - ?e = int j"
    by (rule nonneg_int_cases)
  have "(of_int (k + int p - 1 - ?e) :: real) = of_int (int j)" by (simp only: j)
  then have jr: "of_int k - (of_int ?e - (of_nat p - 1)) = (of_nat j :: real)" by simp
  have "(2::real) powr of_int k / ?u = 2 powr (of_int k - (of_int ?e - (of_nat p - 1)))"
    by (simp only: powr_diff)
  also have "\<dots> = 2 ^ j" unfolding jr by (simp add: powr_realpow)
  finally have kj: "(2::real) powr of_int k / ?u = 2 ^ j" .
  have "?x / ?u = of_int m * (2 powr of_int k / ?u)" by simp
  also have "\<dots> = of_int (m * 2 ^ j)" unfolding kj by simp
  finally have "rne (?x / ?u) = m * 2 ^ j" by (simp only: rne_of_int)
  then have "fl p ?x = of_int (m * 2 ^ j) * ?u"
    using x0 by (simp add: fl_def Let_def)
  also have "\<dots> = of_int m * (2 ^ j * ?u)" by simp
  also have "2 ^ j * ?u = (2::real) powr of_int k"
    using kj by (simp add: field_simps)
  finally show ?thesis .
qed

lemma fl_one: "1 \<le> p \<Longrightarrow> fl p 1 = 1"
  using fl_representable [of 1 p 0] by simp






lemma fl_dyadic:
  assumes "\<bar>m\<bar> < 2 ^ p" and "1 \<le> p"
  shows "fl p (of_int m / 2 ^ k) = of_int m / 2 ^ k"
proof -
  have "(2::real) powr of_int (- int k) = 1 / 2 ^ k"
    by (simp add: powr_minus_divide powr_realpow)
  then show ?thesis using fl_representable [OF assms, of "- int k"] by simp
qed


lemma fl_int:
  assumes "\<bar>m\<bar> < 2 ^ p" and "1 \<le> p"
  shows "fl p (of_int m) = of_int m"
  using fl_dyadic [OF assms, of 0] by simp


lemma fl_rel:
  assumes p: "1 \<le> p"
  shows "\<exists>e. \<bar>e\<bar> \<le> 1 / 2 ^ p \<and> fl p x = x * (1 + e)"
proof (cases "x = 0")
  case True
  then show ?thesis by (intro exI [of _ 0]) simp
next
  case False
  let ?e = "(fl p x - x) / x"
  have "\<bar>?e\<bar> = \<bar>fl p x - x\<bar> / \<bar>x\<bar>" by (simp add: abs_divide)
  also have "\<dots> \<le> (\<bar>x\<bar> / 2 ^ p) / \<bar>x\<bar>"
    using fl_error [OF p, of x] False by (intro divide_right_mono) simp_all
  also have "\<dots> = 1 / 2 ^ p" using False by simp
  finally have b: "\<bar>?e\<bar> \<le> 1 / 2 ^ p" .
  have "fl p x = x * (1 + ?e)" using False by (simp add: field_simps)
  then show ?thesis using b by blast
qed


section \<open>The noise process\<close>

lemma ou_call_sigma0:
  assumes "ou_sigma s = 0"
    and "length (ou_x_prev s) = length (ou_mu s)"
    and "length n = length (ou_mu s)"
  shows "OUActionNoise_call n s =
           Inr (map2 (\<lambda>x m. x + ou_theta s * (m - x) * ou_dt s) (ou_x_prev s) (ou_mu s),
                s\<lparr>ou_x_prev :=
                    map2 (\<lambda>x m. x + ou_theta s * (m - x) * ou_dt s) (ou_x_prev s) (ou_mu s)\<rparr>)"
  using assms
  by (simp add: OUActionNoise_call_def np_elementwise_def list_eq_iff_nth_eq)

text \<open>
  C6, as the code has it. After \<^verbatim>\<open>reset()\<close>, one \<^verbatim>\<open>sample()\<close> with \<open>sigma = 0\<close> (and a
  non-negative \<open>dt\<close>) returns \<open>x0 + theta * (mu - x0) * dt\<close> componentwise, where \<open>x0\<close>
  is the configured start or the zero vector of \<open>mu\<close>'s shape, and stores that vector as
  the new \<open>x_prev\<close>; when \<open>x0 = mu\<close> the vector returned is \<open>mu\<close>.
\<close>

theorem ou_reset_then_sample:
  assumes sg: "ou_sigma s = 0"
    and dt: "0 \<le> ou_dt s"
    and lx: "\<forall>v. ou_x0 s = Some v \<longrightarrow> length v = length (ou_mu s)"
    and ln: "length n = length (ou_mu s)"
  shows "OUActionNoise_call n (OUActionNoise_reset s) =
           Inr (first_sample s, (OUActionNoise_reset s)\<lparr>ou_x_prev := first_sample s\<rparr>)
         \<and> (ou_x0 s = Some (ou_mu s) \<longrightarrow> first_sample s = ou_mu s)"
proof -
  let ?r = "OUActionNoise_reset s"
  have a: "ou_sigma ?r = 0"
    using sg by (simp add: OUActionNoise_reset_def)
  have b: "length (ou_x_prev ?r) = length (ou_mu ?r)"
    using lx by (simp add: OUActionNoise_reset_def split: option.splits)
  have c: "length n = length (ou_mu ?r)"
    using ln by (simp add: OUActionNoise_reset_def)
  have d: "map2 (\<lambda>x m. x + ou_theta ?r * (m - x) * ou_dt ?r) (ou_x_prev ?r) (ou_mu ?r)
             = first_sample s"
    by (simp add: OUActionNoise_reset_def first_sample_def)
  have "OUActionNoise_call n ?r = Inr (first_sample s, ?r\<lparr>ou_x_prev := first_sample s\<rparr>)"
    using ou_call_sigma0 [OF a b c] unfolding d .
  moreover have "ou_x0 s = Some (ou_mu s) \<longrightarrow> first_sample s = ou_mu s"
    by (simp add: first_sample_def list_eq_iff_nth_eq)
  ultimately show ?thesis by simp
qed

text \<open>
  The theorem at \<open>mu = [1]\<close>, \<open>theta = dt = 1/5\<close>, no \<open>x0\<close>: the sample is \<open>1/25\<close>.
\<close>

theorem ou_reset_then_sample_witness:
  "OUActionNoise_call [0]
     (OUActionNoise_reset
        \<lparr>ou_theta = 1/5, ou_mu = [1], ou_sigma = 0, ou_dt = 1/5, ou_x0 = None, ou_x_prev = []\<rparr>)
   = Inr ([1/25],
          \<lparr>ou_theta = 1/5, ou_mu = [1], ou_sigma = 0, ou_dt = 1/5, ou_x0 = None,
           ou_x_prev = [1/25]\<rparr>)"
  using ou_reset_then_sample
    [of "\<lparr>ou_theta = 1/5, ou_mu = [1], ou_sigma = 0, ou_dt = 1/5, ou_x0 = None, ou_x_prev = []\<rparr>"
        "[0]"]
  by (simp add: first_sample_def OUActionNoise_reset_def)

text \<open>
  C6 as the specification words it fails: at the same input the specification's formula
  \<open>mu + theta * (mu - x0) * dt\<close> gives \<open>26/25\<close>, the code returns \<open>1/25\<close>.
\<close>

theorem ou_spec_formula_counterexample:
  "map_sum id fst
     (OUActionNoise_call [0]
        (OUActionNoise_reset
           \<lparr>ou_theta = 1/5, ou_mu = [1], ou_sigma = 0, ou_dt = 1/5, ou_x0 = None,
            ou_x_prev = []\<rparr>))
   \<noteq> Inr (spec_first_sample
            \<lparr>ou_theta = 1/5, ou_mu = [1], ou_sigma = 0, ou_dt = 1/5, ou_x0 = None,
             ou_x_prev = []\<rparr>)"
  by (simp add: OUActionNoise_call_def OUActionNoise_reset_def np_elementwise_def
      spec_first_sample_def)

section \<open>The replay buffer\<close>

lemma store_transition_fits:
  "buffer_ok b \<Longrightarrow> fits b t \<Longrightarrow> store_transition b t = Inr (write_slot b t)"
  by (cases t) (simp add: store_transition_def write_slot_def buffer_ok_def fits_def
      np_row_value_def Let_def)

lemma write_slot_frame:
  "mem_size (write_slot b t) = mem_size b"
  "input_shape (write_slot b t) = input_shape b"
  "actions_shape (write_slot b t) = actions_shape b"
  "mem_cntr (write_slot b t) = mem_cntr b + 1"
  by (cases t; simp add: write_slot_def)+

lemma write_slot_ok: "buffer_ok b \<Longrightarrow> buffer_ok (write_slot b t)"
  by (cases t) (simp add: write_slot_def buffer_ok_def)

lemma slot_write_slot:
  "buffer_ok b \<Longrightarrow> j < mem_size b \<Longrightarrow>
   slot (write_slot b t) j = (if j = mem_cntr b mod mem_size b then stored t else slot b j)"
  by (cases t) (simp add: write_slot_def slot_def stored_def buffer_ok_def)

lemma store_all_append:
  "store_all b (ts @ us) =
     (case store_all b ts of Inl e \<Rightarrow> Inl e | Inr b' \<Rightarrow> store_all b' us)"
  by (induction ts arbitrary: b) (simp_all split: sum.splits)

lemma mod_shift_neq:
  fixes c :: nat
  assumes "k < n" "n < k + m"
  shows "(c + k) mod m \<noteq> (c + n) mod m"
proof
  assume e: "(c + k) mod m = (c + n) mod m"
  have "c + k \<le> c + n" using assms by simp
  then have "m dvd (c + n) - (c + k)"
    using e mod_eq_dvd_iff_nat [of "c + k" "c + n" m] by simp
  then have "m dvd n - k" by simp
  moreover have "0 < n - k" "n - k < m" using assms by simp_all
  ultimately show False using nat_dvd_not_less by blast
qed

text \<open>
  The invariant of a run of calls from any well-sized buffer: every call succeeds, the
  cursor counts the calls, each of the last \<open>mem_size\<close> transitions sits at its cursor
  value modulo \<open>mem_size\<close>, and a slot no call addressed is unchanged.
\<close>

lemma store_all_retains:
  assumes ok: "buffer_ok b" and fit: "\<forall>t \<in> set ts. fits b t"
  shows "\<exists>b'. store_all b ts = Inr b' \<and> buffer_ok b' \<and>
           mem_size b' = mem_size b \<and> input_shape b' = input_shape b \<and>
           actions_shape b' = actions_shape b \<and>
           mem_cntr b' = mem_cntr b + length ts \<and>
           (\<forall>k < length ts. length ts \<le> k + mem_size b \<longrightarrow>
              slot b' ((mem_cntr b + k) mod mem_size b) = stored (ts ! k)) \<and>
           (\<forall>j < mem_size b. (\<forall>k < length ts. (mem_cntr b + k) mod mem_size b \<noteq> j) \<longrightarrow>
              slot b' j = slot b j)"
  using fit
proof (induction ts rule: rev_induct)
  case Nil
  then show ?case using ok by simp
next
  case (snoc t ts)
  then obtain b' where b': "store_all b ts = Inr b'" "buffer_ok b'"
    "mem_size b' = mem_size b" "input_shape b' = input_shape b"
    "actions_shape b' = actions_shape b"
    "mem_cntr b' = mem_cntr b + length ts"
    and keep: "\<forall>k < length ts. length ts \<le> k + mem_size b \<longrightarrow>
              slot b' ((mem_cntr b + k) mod mem_size b) = stored (ts ! k)"
    and old: "\<forall>j < mem_size b. (\<forall>k < length ts. (mem_cntr b + k) mod mem_size b \<noteq> j) \<longrightarrow>
              slot b' j = slot b j"
    by auto
  have ft: "fits b' t"
    using snoc.prems b'(3,4,5) by (cases t) (simp add: fits_def)
  have pos: "0 < mem_size b"
    using ok by (simp add: buffer_ok_def)
  let ?c = "write_slot b' t"
  have st: "store_all b (ts @ [t]) = Inr ?c"
    by (simp add: store_all_append b'(1) store_transition_fits [OF b'(2) ft])
  have sl: "\<And>j. j < mem_size b \<Longrightarrow>
      slot ?c j = (if j = (mem_cntr b + length ts) mod mem_size b then stored t else slot b' j)"
    using slot_write_slot [OF b'(2)] b'(3,6) by simp
  have A: "\<forall>k < length (ts @ [t]). length (ts @ [t]) \<le> k + mem_size b \<longrightarrow>
              slot ?c ((mem_cntr b + k) mod mem_size b) = stored ((ts @ [t]) ! k)"
  proof (intro allI impI)
    fix k
    assume k: "k < length (ts @ [t])" and r: "length (ts @ [t]) \<le> k + mem_size b"
    show "slot ?c ((mem_cntr b + k) mod mem_size b) = stored ((ts @ [t]) ! k)"
    proof (cases "k = length ts")
      case True
      then show ?thesis using sl pos by simp
    next
      case False
      then have kl: "k < length ts" using k by simp
      have ne: "(mem_cntr b + k) mod mem_size b \<noteq> (mem_cntr b + length ts) mod mem_size b"
        using mod_shift_neq [of k "length ts" "mem_size b" "mem_cntr b"] kl r by simp
      have "slot ?c ((mem_cntr b + k) mod mem_size b)
              = slot b' ((mem_cntr b + k) mod mem_size b)"
        using sl [of "(mem_cntr b + k) mod mem_size b"] pos ne by simp
      also have "\<dots> = stored (ts ! k)" using keep kl r by simp
      finally show ?thesis using kl by (simp add: nth_append)
    qed
  qed
  have B: "\<forall>j < mem_size b.
             (\<forall>k < length (ts @ [t]). (mem_cntr b + k) mod mem_size b \<noteq> j) \<longrightarrow>
             slot ?c j = slot b j"
  proof (intro allI impI)
    fix j
    assume j: "j < mem_size b"
      and n: "\<forall>k < length (ts @ [t]). (mem_cntr b + k) mod mem_size b \<noteq> j"
    have "j \<noteq> (mem_cntr b + length ts) mod mem_size b" using n by auto
    then have "slot ?c j = slot b' j" using sl [OF j] by simp
    moreover have "slot b' j = slot b j" using old j n by simp
    ultimately show "slot ?c j = slot b j" by simp
  qed
  show ?case
    using st write_slot_ok [OF b'(2)] b'(3,4,5,6) A B
    by (simp add: write_slot_frame)
qed

lemma init_ok: "0 < cap \<Longrightarrow> buffer_ok (ReplayBuffer_init cap d a)"
  by (simp add: buffer_ok_def ReplayBuffer_init_def)

lemma init_frame:
  "mem_size (ReplayBuffer_init cap d a) = cap"
  "mem_cntr (ReplayBuffer_init cap d a) = 0"
  by (simp_all add: ReplayBuffer_init_def)

lemma mod_window_image:
  fixes cap n :: nat
  assumes "0 < cap" "cap \<le> n"
  shows "(\<lambda>k. k mod cap) ` {n - cap..<n} = {0..<cap}" and "inj_on (\<lambda>k. k mod cap) {n - cap..<n}"
proof -
  show inj: "inj_on (\<lambda>k. k mod cap) {n - cap..<n}"
  proof (rule inj_onI)
    fix x y assume x: "x \<in> {n - cap..<n}" and y: "y \<in> {n - cap..<n}" and e: "x mod cap = y mod cap"
    show "x = y"
    proof (rule ccontr)
      assume ne: "x \<noteq> y"
      then consider "x < y" | "y < x" by linarith
      then show False
      proof cases
        case 1
        then have "(0 + x) mod cap \<noteq> (0 + y) mod cap"
          using x y by (intro mod_shift_neq) auto
        then show False using e by simp
      next
        case 2
        then have "(0 + y) mod cap \<noteq> (0 + x) mod cap"
          using x y by (intro mod_shift_neq) auto
        then show False using e by simp
      qed
    qed
  qed
  have sub: "(\<lambda>k. k mod cap) ` {n - cap..<n} \<subseteq> {0..<cap}" using assms by auto
  have "card ((\<lambda>k. k mod cap) ` {n - cap..<n}) = card {n - cap..<n}"
    using inj by (rule card_image)
  also have "\<dots> = card {0..<cap}" using assms by simp
  finally show "(\<lambda>k. k mod cap) ` {n - cap..<n} = {0..<cap}"
    using sub by (simp add: card_subset_eq)
qed

lemma drop_as_map_nth: "drop m xs = map ((!) xs) [m..<length xs]"
  by (metis drop_map map_nth drop_upt add_0 diff_zero)

lemma window_mset:
  fixes cap :: nat
  assumes cap: "0 < cap" and n: "cap \<le> length ts"
    and sl: "\<forall>k < length ts. length ts \<le> k + cap \<longrightarrow> f (k mod cap) = g (ts ! k)"
  shows "mset (map f [0..<cap]) = mset (map g (drop (length ts - cap) ts))"
proof -
  let ?n = "length ts"
  let ?W = "{?n - cap..<?n}"
  have "mset (map f [0..<cap]) = image_mset f (mset_set {0..<cap})"
    by (simp add: mset_upt)
  also have "\<dots> = image_mset f (mset_set ((\<lambda>k. k mod cap) ` ?W))"
    using mod_window_image(1) [OF cap n] by simp
  also have "\<dots> = image_mset f (image_mset (\<lambda>k. k mod cap) (mset_set ?W))"
    using mod_window_image(2) [OF cap n] by (simp add: image_mset_mset_set)
  also have "\<dots> = image_mset (\<lambda>k. f (k mod cap)) (mset_set ?W)"
    by (simp add: multiset.map_comp comp_def)
  also have "\<dots> = image_mset (\<lambda>k. g (ts ! k)) (mset_set ?W)"
    by (rule image_mset_cong) (use sl n in auto)
  also have "\<dots> = mset (map (\<lambda>k. g (ts ! k)) [?n - cap..<?n])"
    by (simp add: mset_upt)
  also have "\<dots> = mset (map g (drop (?n - cap) ts))"
    by (simp add: drop_as_map_nth comp_def)
  finally show ?thesis .
qed

text \<open>
  C2. Starting from a fresh buffer of positive capacity, every call of a sequence of
  \<^verbatim>\<open>store_transition\<close> calls succeeds; the \<open>i\<close>-th call (cursor value \<open>i\<close>) leaves the
  cursor at \<open>i + 1\<close> and its five fields, the terminal flag as continuation mask (0 for a
  terminal transition, 1 otherwise), in slot \<open>i mod capacity\<close>; after the whole sequence
  each of the last \<open>capacity\<close> transitions is in the slot of its index, and once the
  sequence is at least \<open>capacity\<close> long the slots hold exactly the most recent
  \<open>capacity\<close> transitions.
\<close>

theorem store_transition_circular:
  assumes cap: "0 < cap"
    and fit: "\<forall>t \<in> set ts. fits (ReplayBuffer_init cap d a) t"
  shows "\<exists>b'. store_all (ReplayBuffer_init cap d a) ts = Inr b' \<and>
           mem_cntr b' = length ts \<and>
           (\<forall>i < length ts. \<exists>bi.
              store_all (ReplayBuffer_init cap d a) (take (Suc i) ts) = Inr bi \<and>
              mem_cntr bi = Suc i \<and> slot bi (i mod cap) = stored (ts ! i)) \<and>
           (\<forall>k < length ts. length ts \<le> k + cap \<longrightarrow> slot b' (k mod cap) = stored (ts ! k)) \<and>
           (cap \<le> length ts \<longrightarrow>
              mset (map (slot b') [0..<cap]) = mset (map stored (drop (length ts - cap) ts)))"
proof -
  let ?b0 = "ReplayBuffer_init cap d a"
  have ok: "buffer_ok ?b0" using cap by (rule init_ok)
  from store_all_retains [OF ok fit]
  obtain b' where b': "store_all ?b0 ts = Inr b'" "mem_cntr b' = length ts"
    and keep: "\<forall>k < length ts. length ts \<le> k + cap \<longrightarrow> slot b' (k mod cap) = stored (ts ! k)"
    by (auto simp: init_frame)
  have pre: "\<forall>i < length ts. \<exists>bi.
              store_all ?b0 (take (Suc i) ts) = Inr bi \<and>
              mem_cntr bi = Suc i \<and> slot bi (i mod cap) = stored (ts ! i)"
  proof (intro allI impI)
    fix i assume i: "i < length ts"
    have f: "\<forall>t \<in> set (take (Suc i) ts). fits ?b0 t"
      using fit by (meson in_set_takeD)
    from store_all_retains [OF ok f]
    obtain bi where bi: "store_all ?b0 (take (Suc i) ts) = Inr bi"
      "mem_cntr bi = length (take (Suc i) ts)"
      and k: "\<forall>k < length (take (Suc i) ts). length (take (Suc i) ts) \<le> k + cap \<longrightarrow>
                slot bi (k mod cap) = stored (take (Suc i) ts ! k)"
      by (auto simp: init_frame)
    have l: "length (take (Suc i) ts) = Suc i" using i by simp
    have "slot bi (i mod cap) = stored (take (Suc i) ts ! i)"
      using k cap unfolding l by simp
    then show "\<exists>bi. store_all ?b0 (take (Suc i) ts) = Inr bi \<and>
              mem_cntr bi = Suc i \<and> slot bi (i mod cap) = stored (ts ! i)"
      using bi l by simp
  qed
  have ms: "cap \<le> length ts \<longrightarrow>
              mset (map (slot b') [0..<cap]) = mset (map stored (drop (length ts - cap) ts))"
    using window_mset [OF cap _ keep] by blast
  show ?thesis using b' keep pre ms by blast
qed


text \<open>
  The theorem for capacity 2 and three transitions: the third overwrote the first.
\<close>

theorem store_transition_circular_witness:
  "\<exists>b'. store_all (ReplayBuffer_init 2 1 1)
            [([1], [1], 1, [2], False), ([2], [0], 2, [3], False), ([3], [1], 3, [4], True)]
            = Inr b' \<and>
         mem_cntr b' = 3 \<and>
         slot b' 0 = ([3], [1], 3, [4], 0) \<and>
         slot b' 1 = ([2], [0], 2, [3], 1)"
proof -
  let ?ts = "[([1], [1], 1, [2], False), ([2], [0], 2, [3], False), ([3], [1], 3, [4], True)]
               :: transition list"
  have c: "(0::nat) < 2" by simp
  have f: "\<forall>t \<in> set ?ts. fits (ReplayBuffer_init 2 1 1) t"
    by (simp add: fits_def ReplayBuffer_init_def)
  from store_transition_circular [OF c f]
  obtain b' where s: "store_all (ReplayBuffer_init 2 1 1) ?ts = Inr b'"
    and m: "mem_cntr b' = length ?ts"
    and k: "\<forall>k < length ?ts. length ?ts \<le> k + 2 \<longrightarrow> slot b' (k mod 2) = stored (?ts ! k)"
    by blast
  have "slot b' (2 mod 2) = stored (?ts ! 2)" using k [rule_format, of 2] by simp
  then have s0: "slot b' 0 = ([3], [1], 3, [4], 0)" by (simp add: stored_def)
  have "slot b' (1 mod 2) = stored (?ts ! 1)" using k [rule_format, of 1] by simp
  then have s1: "slot b' 1 = ([2], [0], 2, [3], 1)" by (simp add: stored_def)
  show ?thesis using s m s0 s1 by simp
qed

section \<open>The soft update\<close>

lemma same_architecture_length: "same_architecture p q \<Longrightarrow> length p = length q"
  unfolding same_architecture_def by (metis length_map)

lemma same_architecture_nth:
  assumes "same_architecture p q" "i < length p"
  shows "fst (q ! i) = fst (p ! i)" "length (snd (q ! i)) = length (snd (p ! i))"
proof -
  have l: "length p = length q" using assms(1) by (rule same_architecture_length)
  have "map (\<lambda>(name, v). (name, length v)) p ! i = map (\<lambda>(name, v). (name, length v)) q ! i"
    using assms(1) by (simp add: same_architecture_def)
  then have "(\<lambda>(name, v). (name, length v)) (p ! i) = (\<lambda>(name, v). (name, length v)) (q ! i)"
    using assms(2) l by simp
  then show "fst (q ! i) = fst (p ! i)" "length (snd (q ! i)) = length (snd (p ! i))"
    by (simp_all add: case_prod_beta)
qed

lemma same_architecture_fst: "same_architecture p q \<Longrightarrow> map fst q = map fst p"
proof -
  assume a: "same_architecture p q"
  have "map fst (map (\<lambda>(name, v). (name, length v)) p) = map fst (map (\<lambda>(name, v). (name, length v)) q)"
    using a by (simp add: same_architecture_def)
  then show ?thesis by (simp add: comp_def case_prod_beta)
qed

lemma map_of_nth_distinct:
  "distinct (map fst xs) \<Longrightarrow> i < length xs \<Longrightarrow> map_of xs (fst (xs ! i)) = Some (snd (xs ! i))"
  by (simp add: map_of_eq_Some_iff)

lemma blend_general:
  assumes "\<forall>(name, x) \<in> set p. \<exists>y. map_of target name = Some y \<and> length y = length x"
  shows "blend t p target =
           Inr (map (\<lambda>(name, x). (name, map2 (soft_blend t) x (the (map_of target name)))) p)"
  using assms
proof (induction p)
  case Nil
  then show ?case by simp
next
  case (Cons a p)
  obtain name x where a: "a = (name, x)" by (cases a)
  from Cons.prems a obtain y where y: "map_of target name = Some y" "length y = length x"
    by auto
  have rest: "\<forall>(name, x) \<in> set p. \<exists>y. map_of target name = Some y \<and> length y = length x"
    using Cons.prems by simp
  show ?case
    using Cons.IH [OF rest] y by (simp add: a torch_elementwise_def)
qed

lemma blend_same_architecture:
  assumes sa: "same_architecture p q"
  shows "blend t p q = Inr (blended t p q)"
proof -
  have l: "length p = length q" using sa by (rule same_architecture_length)
  have dq: "distinct (map fst q)"
    using sa same_architecture_fst [OF sa] by (simp add: same_architecture_def)
  have look: "\<And>i. i < length p \<Longrightarrow> map_of q (fst (p ! i)) = Some (snd (q ! i))"
    using map_of_nth_distinct [OF dq] same_architecture_nth(1) [OF sa] l by metis
  have pre: "\<forall>(name, x) \<in> set p. \<exists>y. map_of q name = Some y \<and> length y = length x"
  proof (clarify)
    fix name x assume "(name, x) \<in> set p"
    then obtain i where i: "i < length p" "p ! i = (name, x)" by (auto simp: in_set_conv_nth)
    have "map_of q name = Some (snd (q ! i))" using look [OF i(1)] i(2) by simp
    moreover have "length (snd (q ! i)) = length x"
      using same_architecture_nth(2) [OF sa i(1)] i(2) by simp
    ultimately show "\<exists>y. map_of q name = Some y \<and> length y = length x" by blast
  qed
  have "map (\<lambda>(name, x). (name, map2 (soft_blend t) x (the (map_of q name)))) p = blended t p q"
    unfolding blended_def
  proof (rule nth_equalityI)
    show "length (map (\<lambda>(name, x). (name, map2 (soft_blend t) x (the (map_of q name)))) p)
          = length (map2 (\<lambda>(name, x) (name', y). (name, map2 (soft_blend t) x y)) p q)"
      using l by simp
  next
    fix i assume "i < length (map (\<lambda>(name, x). (name, map2 (soft_blend t) x (the (map_of q name)))) p)"
    then have i: "i < length p" by simp
    show "map (\<lambda>(name, x). (name, map2 (soft_blend t) x (the (map_of q name)))) p ! i
          = map2 (\<lambda>(name, x) (name', y). (name, map2 (soft_blend t) x y)) p q ! i"
      using i l look [OF i] by (simp add: case_prod_beta)
  qed
  then show ?thesis using blend_general [OF pre] by simp
qed

lemma blended_architecture:
  assumes sa: "same_architecture p q"
  shows "same_architecture (blended t p q) q"
proof -
  have l: "length p = length q" using sa by (rule same_architecture_length)
  have a: "map (\<lambda>(name, v). (name, length v)) (blended t p q) = map (\<lambda>(name, v). (name, length v)) q"
  proof (rule nth_equalityI)
    show "length (map (\<lambda>(name, v). (name, length v)) (blended t p q))
          = length (map (\<lambda>(name, v). (name, length v)) q)"
      using l by (simp add: blended_def)
  next
    fix i assume "i < length (map (\<lambda>(name, v). (name, length v)) (blended t p q))"
    then have i: "i < length p" using l by (simp add: blended_def)
    show "map (\<lambda>(name, v). (name, length v)) (blended t p q) ! i
          = map (\<lambda>(name, v). (name, length v)) q ! i"
      using i l same_architecture_nth [OF sa i]
      by (simp add: blended_def case_prod_beta prod_eq_iff)
  qed
  have "map fst (blended t p q) = map fst p"
    using l by (simp add: blended_def list_eq_iff_nth_eq case_prod_beta)
  then have "distinct (map fst (blended t p q))" using sa by (simp add: same_architecture_def)
  then show ?thesis using a by (simp add: same_architecture_def)
qed

lemma load_state_dict_same_architecture:
  assumes sa: "same_architecture new own"
  shows "load_state_dict own new = Inr new"
proof -
  have l: "length new = length own" using sa by (rule same_architecture_length)
  have f: "map fst own = map fst new" using sa by (rule same_architecture_fst)
  have d: "distinct (map fst new)" using sa by (simp add: same_architecture_def)
  have look: "\<And>i. i < length new \<Longrightarrow> map_of new (fst (own ! i)) = Some (snd (new ! i))"
    using map_of_nth_distinct [OF d] same_architecture_nth(1) [OF sa] by metis
  have 1: "set (map fst new) = set (map fst own)" using f by simp
  have 2: "\<not> (\<exists>(name, q) \<in> set own. map_option length (map_of new name) \<noteq> Some (length q))"
  proof
    assume "\<exists>(name, q) \<in> set own. map_option length (map_of new name) \<noteq> Some (length q)"
    then obtain name q where nq: "(name, q) \<in> set own"
      "map_option length (map_of new name) \<noteq> Some (length q)" by auto
    then obtain i where i: "i < length own" "own ! i = (name, q)" by (auto simp: in_set_conv_nth)
    have "map_of new name = Some (snd (new ! i))" using look [of i] i l by simp
    moreover have "length (snd (new ! i)) = length q"
      using same_architecture_nth(2) [OF sa, of i] i l by simp
    ultimately show False using nq(2) by simp
  qed
  have 3: "map (\<lambda>(name, q). (name, case map_of new name of Some v \<Rightarrow> v | None \<Rightarrow> q)) own = new"
  proof (rule nth_equalityI)
    show "length (map (\<lambda>(name, q). (name, case map_of new name of Some v \<Rightarrow> v | None \<Rightarrow> q)) own) = length new"
      using l by simp
  next
    fix i assume "i < length (map (\<lambda>(name, q). (name, case map_of new name of Some v \<Rightarrow> v | None \<Rightarrow> q)) own)"
    then have i: "i < length new" using l by simp
    show "map (\<lambda>(name, q). (name, case map_of new name of Some v \<Rightarrow> v | None \<Rightarrow> q)) own ! i = new ! i"
      using i l look [OF i] same_architecture_nth(1) [OF sa i]
      by (simp add: case_prod_beta prod_eq_iff)
  qed
  show ?thesis unfolding load_state_dict_def using 1 2 3 by simp
qed

lemma update_network_parameters_same_architecture:
  assumes c: "same_architecture (cn_parameters (critic ag)) (cn_parameters (target_critic ag))"
    and a: "same_architecture (an_parameters (actor ag)) (an_parameters (target_actor ag))"
  shows "update_network_parameters t ag =
     Inr (ag\<lparr>target_critic := (target_critic ag)
                \<lparr>cn_parameters := blended (case t of None \<Rightarrow> tau ag | Some v \<Rightarrow> v)
                                     (cn_parameters (critic ag)) (cn_parameters (target_critic ag))\<rparr>,
             target_actor := (target_actor ag)
                \<lparr>an_parameters := blended (case t of None \<Rightarrow> tau ag | Some v \<Rightarrow> v)
                                     (an_parameters (actor ag)) (an_parameters (target_actor ag))\<rparr>\<rparr>)"
  unfolding update_network_parameters_def Let_def
  by (simp add: blend_same_architecture [OF c] blend_same_architecture [OF a]
      load_state_dict_same_architecture [OF blended_architecture [OF c]]
      load_state_dict_same_architecture [OF blended_architecture [OF a]])

lemma blended_props:
  assumes sa: "same_architecture p q"
  shows "map fst (blended t p q) = map fst p"
    and "i < length p \<Longrightarrow> length (snd (blended t p q ! i)) = length (snd (p ! i))"
    and "i < length p \<Longrightarrow> j < length (snd (p ! i)) \<Longrightarrow>
           snd (blended t p q ! i) ! j = soft_blend t (snd (p ! i) ! j) (snd (q ! i) ! j)"
proof -
  have l: "length p = length q" using sa by (rule same_architecture_length)
  show "map fst (blended t p q) = map fst p"
    using l by (simp add: blended_def list_eq_iff_nth_eq case_prod_beta)
  show "length (snd (blended t p q ! i)) = length (snd (p ! i))" if i: "i < length p"
    using i l same_architecture_nth(2) [OF sa i] by (simp add: blended_def case_prod_beta)
  show "snd (blended t p q ! i) ! j = soft_blend t (snd (p ! i) ! j) (snd (q ! i) ! j)"
    if i: "i < length p" and j: "j < length (snd (p ! i))"
    using i j l same_architecture_nth(2) [OF sa i] by (simp add: blended_def case_prod_beta)
qed

lemma blended_soft_updated:
  assumes sa: "same_architecture p q"
  shows "soft_updated t p q (blended t p q)"
  unfolding soft_updated_def
proof (intro conjI allI impI)
  show "map fst (blended t p q) = map fst p" by (rule blended_props(1) [OF sa])
next
  fix i assume "i < length p"
  then show "length (snd (blended t p q ! i)) = length (snd (p ! i))"
    by (rule blended_props(2) [OF sa])
next
  fix i j assume i: "i < length p" and j: "j < length (snd (p ! i))"
  show "snd (blended t p q ! i) ! j =
          float32 (float32 (float32 t * snd (p ! i) ! j)
                   + float32 (float32 (float64 (1 - t)) * snd (q ! i) ! j))"
    unfolding blended_props(3) [OF sa i j] soft_blend_def ..
qed

lemma near_one_mult:
  fixes a b :: real
  assumes a: "\<bar>a - 1\<bar> \<le> \<alpha>" and b: "\<bar>b - 1\<bar> \<le> d" and le: "\<alpha> \<le> 1"
  shows "\<bar>a * b - 1\<bar> \<le> \<alpha> + 2 * d"
proof -
  have d0: "0 \<le> d" using b by linarith
  have eq: "a * b - 1 = ((a - 1) * (b - 1) + (a - 1)) + (b - 1)" by (simp add: algebra_simps)
  have "\<bar>a * b - 1\<bar> \<le> \<bar>(a - 1) * (b - 1) + (a - 1)\<bar> + \<bar>b - 1\<bar>"
    unfolding eq by (rule abs_triangle_ineq)
  moreover have "\<bar>(a - 1) * (b - 1) + (a - 1)\<bar> \<le> \<bar>(a - 1) * (b - 1)\<bar> + \<bar>a - 1\<bar>"
    by (rule abs_triangle_ineq)
  moreover have "\<bar>(a - 1) * (b - 1)\<bar> \<le> \<alpha> * d"
    unfolding abs_mult using a b by (intro mult_mono) simp_all
  moreover have "\<alpha> * d \<le> 1 * d" using le d0 by (intro mult_right_mono)
  ultimately show ?thesis using a b by linarith
qed

lemma soft_blend_error:
  assumes t0: "0 \<le> t" and t1: "t \<le> 1"
  shows "\<bar>soft_blend t x y - (t * x + (1 - t) * y)\<bar> \<le> max \<bar>x\<bar> \<bar>y\<bar> / 2 ^ 21"
proof -
  define d :: real where "d = 1 / 2 ^ 24"
  have p24: "1 \<le> (24::nat)" and p53: "1 \<le> (53::nat)" by simp_all
  obtain e1 where e1: "\<bar>e1\<bar> \<le> 1 / 2 ^ 24" "fl 24 t = t * (1 + e1)"
    using fl_rel [OF p24, of t] by blast
  obtain e3 where e3: "\<bar>e3\<bar> \<le> 1 / 2 ^ 53" "fl 53 (1 - t) = (1 - t) * (1 + e3)"
    using fl_rel [OF p53, of "1 - t"] by blast
  obtain e4 where e4: "\<bar>e4\<bar> \<le> 1 / 2 ^ 24"
    "fl 24 ((1 - t) * (1 + e3)) = (1 - t) * (1 + e3) * (1 + e4)"
    using fl_rel [OF p24, of "(1 - t) * (1 + e3)"] by blast
  obtain e2 where e2: "\<bar>e2\<bar> \<le> 1 / 2 ^ 24"
    "fl 24 (t * (1 + e1) * x) = t * (1 + e1) * x * (1 + e2)"
    using fl_rel [OF p24, of "t * (1 + e1) * x"] by blast
  obtain e5 where e5: "\<bar>e5\<bar> \<le> 1 / 2 ^ 24"
    "fl 24 ((1 - t) * (1 + e3) * (1 + e4) * y) = (1 - t) * (1 + e3) * (1 + e4) * y * (1 + e5)"
    using fl_rel [OF p24, of "(1 - t) * (1 + e3) * (1 + e4) * y"] by blast
  obtain e6 where e6: "\<bar>e6\<bar> \<le> 1 / 2 ^ 24"
    "fl 24 (t * (1 + e1) * x * (1 + e2) + (1 - t) * (1 + e3) * (1 + e4) * y * (1 + e5))
       = (t * (1 + e1) * x * (1 + e2) + (1 - t) * (1 + e3) * (1 + e4) * y * (1 + e5)) * (1 + e6)"
    using fl_rel [OF p24,
        of "t * (1 + e1) * x * (1 + e2) + (1 - t) * (1 + e3) * (1 + e4) * y * (1 + e5)"]
    by blast
  define P where "P = (1 + e1) * (1 + e2) * (1 + e6)"
  define Q where "Q = (1 + e3) * (1 + e4) * (1 + e5) * (1 + e6)"
  have b1: "\<bar>(1 + e1) - 1\<bar> \<le> d" using e1(1) by (simp add: d_def)
  have b2: "\<bar>(1 + e2) - 1\<bar> \<le> d" using e2(1) by (simp add: d_def)
  have b3: "\<bar>(1 + e3) - 1\<bar> \<le> d" using e3(1) by (simp add: d_def)
  have b4: "\<bar>(1 + e4) - 1\<bar> \<le> d" using e4(1) by (simp add: d_def)
  have b5: "\<bar>(1 + e5) - 1\<bar> \<le> d" using e5(1) by (simp add: d_def)
  have b6: "\<bar>(1 + e6) - 1\<bar> \<le> d" using e6(1) by (simp add: d_def)
  have d1: "d \<le> 1" "d + 2 * d \<le> 1" "d + 2 * d + 2 * d \<le> 1" by (simp_all add: d_def)
  have P2: "\<bar>(1 + e1) * (1 + e2) - 1\<bar> \<le> d + 2 * d"
    by (rule near_one_mult [OF b1 b2 d1(1)])
  have P3: "\<bar>P - 1\<bar> \<le> d + 2 * d + 2 * d"
    unfolding P_def by (rule near_one_mult [OF P2 b6 d1(2)])
  have Q2: "\<bar>(1 + e3) * (1 + e4) - 1\<bar> \<le> d + 2 * d"
    by (rule near_one_mult [OF b3 b4 d1(1)])
  have Q3: "\<bar>(1 + e3) * (1 + e4) * (1 + e5) - 1\<bar> \<le> d + 2 * d + 2 * d"
    by (rule near_one_mult [OF Q2 b5 d1(2)])
  have Q4: "\<bar>Q - 1\<bar> \<le> d + 2 * d + 2 * d + 2 * d"
    unfolding Q_def by (rule near_one_mult [OF Q3 b6 d1(3)])
  define h :: real where "h = 1 / 2 ^ 21"
  have Ph: "\<bar>P - 1\<bar> \<le> h" using P3 by (simp add: d_def h_def)
  have Qh: "\<bar>Q - 1\<bar> \<le> h" using Q4 by (simp add: d_def h_def)
  have h0: "0 \<le> h" by (simp add: h_def)
  define M where "M = max \<bar>x\<bar> \<bar>y\<bar>"
  have M: "\<bar>x\<bar> \<le> M" "\<bar>y\<bar> \<le> M" "0 \<le> M" by (simp_all add: M_def)
  have "soft_blend t x y =
          (t * (1 + e1) * x * (1 + e2) + (1 - t) * (1 + e3) * (1 + e4) * y * (1 + e5)) * (1 + e6)"
    unfolding soft_blend_def float32_def float64_def
    by (simp only: e1(2) e3(2) e4(2) e2(2) e5(2) e6(2))
  then have r: "soft_blend t x y = t * x * P + (1 - t) * y * Q"
    by (simp add: P_def Q_def algebra_simps)
  have "soft_blend t x y - (t * x + (1 - t) * y) = t * (x * (P - 1)) + (1 - t) * (y * (Q - 1))"
    unfolding r by (simp add: algebra_simps)
  then have "\<bar>soft_blend t x y - (t * x + (1 - t) * y)\<bar>
               \<le> \<bar>t * (x * (P - 1))\<bar> + \<bar>(1 - t) * (y * (Q - 1))\<bar>"
    by linarith
  also have "\<bar>t * (x * (P - 1))\<bar> = t * (\<bar>x\<bar> * \<bar>P - 1\<bar>)"
    using t0 by (simp add: abs_mult)
  also have "\<bar>(1 - t) * (y * (Q - 1))\<bar> = (1 - t) * (\<bar>y\<bar> * \<bar>Q - 1\<bar>)"
    using t1 by (simp add: abs_mult)
  finally have s: "\<bar>soft_blend t x y - (t * x + (1 - t) * y)\<bar>
               \<le> t * (\<bar>x\<bar> * \<bar>P - 1\<bar>) + (1 - t) * (\<bar>y\<bar> * \<bar>Q - 1\<bar>)" .
  have xP: "\<bar>x\<bar> * \<bar>P - 1\<bar> \<le> M * h" using M Ph by (intro mult_mono) simp_all
  have yQ: "\<bar>y\<bar> * \<bar>Q - 1\<bar> \<le> M * h" using M Qh by (intro mult_mono) simp_all
  have "t * (\<bar>x\<bar> * \<bar>P - 1\<bar>) \<le> t * (M * h)" using xP t0 by (rule mult_left_mono)
  moreover have "(1 - t) * (\<bar>y\<bar> * \<bar>Q - 1\<bar>) \<le> (1 - t) * (M * h)"
    using yQ t1 by (intro mult_left_mono) simp_all
  moreover have "t * (M * h) + (1 - t) * (M * h) = M * h" by (simp add: algebra_simps)
  ultimately have "\<bar>soft_blend t x y - (t * x + (1 - t) * y)\<bar> \<le> M * h" using s by linarith
  then show ?thesis by (simp add: M_def h_def)
qed



lemma blended_near_spec:
  assumes sa: "same_architecture p q" and t0: "0 \<le> t" and t1: "t \<le> 1"
  shows "near_spec_soft_update t p q (blended t p q)"
  unfolding near_spec_soft_update_def spec_soft_update_def
proof (intro allI impI)
  fix i j assume i: "i < length p" and j: "j < length (snd (p ! i))"
  show "\<bar>snd (blended t p q ! i) ! j - (t * snd (p ! i) ! j + (1 - t) * snd (q ! i) ! j)\<bar>
          \<le> max \<bar>snd (p ! i) ! j\<bar> \<bar>snd (q ! i) ! j\<bar> / 2 ^ 21"
    unfolding blended_props(3) [OF sa i j] by (rule soft_blend_error [OF t0 t1])
qed

lemma fl_numeral:
  assumes "(numeral n :: int) < 2 ^ p" and "1 \<le> p"
  shows "fl p (numeral n) = numeral n"
  using fl_int [of "numeral n" p] assms by simp

lemma soft_blend_one:
  assumes "float32 x = x"
  shows "soft_blend 1 x y = x"
  using assms by (simp add: soft_blend_def float32_def float64_def fl_one)

lemma blended_one:
  assumes sa: "same_architecture p q" and f: "float32_params p"
  shows "blended 1 p q = p"
proof -
  have l: "length p = length q" using sa by (rule same_architecture_length)
  show ?thesis
    unfolding blended_def
  proof (rule nth_equalityI)
    show "length (map2 (\<lambda>(name, x) (name', y). (name, map2 (soft_blend 1) x y)) p q) = length p"
      using l by simp
  next
    fix i assume "i < length (map2 (\<lambda>(name, x) (name', y). (name, map2 (soft_blend 1) x y)) p q)"
    then have i: "i < length p" by simp
    have pi: "(fst (p ! i), snd (p ! i)) \<in> set p" using i by simp
    have fx: "float32 x = x" if "x \<in> set (snd (p ! i))" for x
      using f pi that unfolding float32_params_def by blast
    have "map2 (soft_blend 1) (snd (p ! i)) (snd (q ! i)) = snd (p ! i)"
    proof (rule nth_equalityI)
      show "length (map2 (soft_blend 1) (snd (p ! i)) (snd (q ! i))) = length (snd (p ! i))"
        using same_architecture_nth(2) [OF sa i] by simp
    next
      fix j assume "j < length (map2 (soft_blend 1) (snd (p ! i)) (snd (q ! i)))"
      then have j: "j < length (snd (p ! i))" "j < length (snd (q ! i))" by simp_all
      have "float32 (snd (p ! i) ! j) = snd (p ! i) ! j" using fx j(1) by simp
      then show "map2 (soft_blend 1) (snd (p ! i)) (snd (q ! i)) ! j = snd (p ! i) ! j"
        using j by (simp add: soft_blend_one)
    qed
    then show "map2 (\<lambda>(name, x) (name', y). (name, map2 (soft_blend 1) x y)) p q ! i = p ! i"
      using i l by (simp add: case_prod_beta prod_eq_iff)
  qed
qed

lemma Agent_Multi_init_copies:
  assumes c0: "same_architecture critic0 target_critic0"
    and a0: "same_architecture actor0 target_actor0"
    and fc0: "float32_params critic0"
    and fa0: "float32_params actor0"
    and box: "length (high (action_space d)) = length (low (action_space d))"
  shows "\<exists>ag'. Agent_Multi_init d actor0 critic0 target_actor0 target_critic0 opt_a opt_c
                  = Inr ag' \<and>
                an_parameters (actor ag') = actor0 \<and> cn_parameters (critic ag') = critic0 \<and>
                an_parameters (target_actor ag') = an_parameters (actor ag') \<and>
                cn_parameters (target_critic ag') = cn_parameters (critic ag')"
proof -
  obtain sc where sc: "np_elementwise (\<lambda>h l. float64 (float64 (h - l) / 2))
                         (high (action_space d)) (low (action_space d)) = Inr sc"
    using box by (simp add: np_elementwise_def)
  obtain sh where sh: "np_elementwise (\<lambda>h l. float64 (float64 (h + l) / 2))
                         (high (action_space d)) (low (action_space d)) = Inr sh"
    using box by (simp add: np_elementwise_def)
  define n_act where "n_act = length (low (action_space d))"
  define n_critic where "n_critic = own_input_shape d + sum_list (other_input_shapes d)
                          + sum_list (other_actions_shapes d)"
  define r where "r =
              \<lparr>agent_init_dict = d, scale = sc, shift = sh,
               gamma = arg_gamma d, tau = arg_tau d,
               memory = ReplayBuffer_init (max_size d) (own_input_shape d) n_act,
               batch_size = arg_batch_size d,
               actor = \<lparr>an_n_inputs = own_input_shape d, an_n_actions = n_act,
                        an_parameters = actor0, an_optimizer = opt_a\<rparr>,
               critic = \<lparr>cn_n_inputs = n_critic, cn_action_shape = n_act,
                         cn_parameters = critic0, cn_optimizer = opt_c\<rparr>,
               target_actor = \<lparr>an_n_inputs = own_input_shape d, an_n_actions = n_act,
                               an_parameters = target_actor0, an_optimizer = opt_a\<rparr>,
               target_critic = \<lparr>cn_n_inputs = n_critic, cn_action_shape = n_act,
                                cn_parameters = target_critic0, cn_optimizer = opt_c\<rparr>,
               noise = OUActionNoise_init (replicate n_act 0) (noise_sigma d) (noise_theta d)
                         (1 / 5) None,
               global_step = 0, episode_counter = 0\<rparr>"
  have init: "Agent_Multi_init d actor0 critic0 target_actor0 target_critic0 opt_a opt_c
                = update_network_parameters (Some 1) r"
    unfolding Agent_Multi_init_def sc sh r_def n_act_def n_critic_def by (simp add: Let_def)
  have rc: "same_architecture (cn_parameters (critic r)) (cn_parameters (target_critic r))"
    using c0 by (simp add: r_def)
  have ra: "same_architecture (an_parameters (actor r)) (an_parameters (target_actor r))"
    using a0 by (simp add: r_def)
  have fc: "float32_params (cn_parameters (critic r))" using fc0 by (simp add: r_def)
  have fa: "float32_params (an_parameters (actor r))" using fa0 by (simp add: r_def)
  have pa: "an_parameters (actor r) = actor0" and pc: "cn_parameters (critic r) = critic0"
    by (simp_all add: r_def)
  have u: "update_network_parameters (Some 1) r =
         Inr (r\<lparr>target_critic := (target_critic r)
                    \<lparr>cn_parameters := cn_parameters (critic r)\<rparr>,
                 target_actor := (target_actor r)
                    \<lparr>an_parameters := an_parameters (actor r)\<rparr>\<rparr>)"
    using update_network_parameters_same_architecture [OF rc ra, of "Some 1"]
    by (simp add: blended_one [OF rc fc] blended_one [OF ra fa])
  show ?thesis
    unfolding init u using pa pc by simp
qed

text \<open>
  C5. For two pairs of networks of one architecture, \<^verbatim>\<open>_update_network_parameters\<close>
  succeeds, changes nothing but the parameters of the target critic and of the target
  actor, and sets every component of every named parameter of each of them, each pair by
  itself, to \<open>tau * online + (1 - tau) * target\<close> as float32 arithmetic evaluates that
  expression; for \<open>tau\<close> between 0 and 1 the result differs from the value of the
  expression over the reals by at most \<open>2\<close> to the power \<open>-21\<close> times the larger of
  \<open>\<bar>online\<bar>\<close> and \<open>\<bar>target\<bar>\<close>. With \<open>tau = 1\<close> the target parameters become the online
  parameters, and the agent the constructor returns, whose last step is that update with
  \<open>tau = 1\<close>, has target parameters equal to its online parameters (the parameters being
  float32 numbers).
\<close>

theorem soft_update_rule:
  assumes c: "same_architecture (cn_parameters (critic ag)) (cn_parameters (target_critic ag))"
    and a: "same_architecture (an_parameters (actor ag)) (an_parameters (target_actor ag))"
    and c0: "same_architecture critic0 target_critic0"
    and a0: "same_architecture actor0 target_actor0"
    and fc0: "float32_params critic0"
    and fa0: "float32_params actor0"
    and box: "length (high (action_space d)) = length (low (action_space d))"
  shows "(\<exists>ag'. update_network_parameters t ag = Inr ag' \<and>
            ag' = ag\<lparr>target_critic :=
                       (target_critic ag)\<lparr>cn_parameters := cn_parameters (target_critic ag')\<rparr>,
                     target_actor :=
                       (target_actor ag)\<lparr>an_parameters := an_parameters (target_actor ag')\<rparr>\<rparr> \<and>
            soft_updated (case t of None \<Rightarrow> tau ag | Some v \<Rightarrow> v)
              (cn_parameters (critic ag)) (cn_parameters (target_critic ag))
              (cn_parameters (target_critic ag')) \<and>
            soft_updated (case t of None \<Rightarrow> tau ag | Some v \<Rightarrow> v)
              (an_parameters (actor ag)) (an_parameters (target_actor ag))
              (an_parameters (target_actor ag')) \<and>
            (0 \<le> (case t of None \<Rightarrow> tau ag | Some v \<Rightarrow> v) \<and>
             (case t of None \<Rightarrow> tau ag | Some v \<Rightarrow> v) \<le> 1 \<longrightarrow>
               near_spec_soft_update (case t of None \<Rightarrow> tau ag | Some v \<Rightarrow> v)
                 (cn_parameters (critic ag)) (cn_parameters (target_critic ag))
                 (cn_parameters (target_critic ag')) \<and>
               near_spec_soft_update (case t of None \<Rightarrow> tau ag | Some v \<Rightarrow> v)
                 (an_parameters (actor ag)) (an_parameters (target_actor ag))
                 (an_parameters (target_actor ag'))))
         \<and> (float32_params (cn_parameters (critic ag)) \<and>
             float32_params (an_parameters (actor ag)) \<longrightarrow>
              (\<exists>ag'. update_network_parameters (Some 1) ag = Inr ag' \<and>
                 cn_parameters (target_critic ag') = cn_parameters (critic ag) \<and>
                 an_parameters (target_actor ag') = an_parameters (actor ag) \<and>
                 critic ag' = critic ag \<and> actor ag' = actor ag))
         \<and> (\<exists>ag'. Agent_Multi_init d actor0 critic0 target_actor0 target_critic0 opt_a opt_c
                  = Inr ag' \<and>
                an_parameters (actor ag') = actor0 \<and> cn_parameters (critic ag') = critic0 \<and>
                an_parameters (target_actor ag') = an_parameters (actor ag') \<and>
                cn_parameters (target_critic ag') = cn_parameters (critic ag'))"
proof -
  let ?t = "case t of None \<Rightarrow> tau ag | Some v \<Rightarrow> v"
  let ?pc = "cn_parameters (critic ag)" and ?qc = "cn_parameters (target_critic ag)"
  let ?pa = "an_parameters (actor ag)" and ?qa = "an_parameters (target_actor ag)"
  define ag1 where "ag1 =
    ag\<lparr>target_critic := (target_critic ag)\<lparr>cn_parameters := blended ?t ?pc ?qc\<rparr>,
       target_actor := (target_actor ag)\<lparr>an_parameters := blended ?t ?pa ?qa\<rparr>\<rparr>"
  have u: "update_network_parameters t ag = Inr ag1"
    unfolding ag1_def by (rule update_network_parameters_same_architecture [OF c a])
  have nc: "cn_parameters (target_critic ag1) = blended ?t ?pc ?qc"
    and na: "an_parameters (target_actor ag1) = blended ?t ?pa ?qa"
    by (simp_all add: ag1_def)
  have fr: "ag1 = ag\<lparr>target_critic :=
                       (target_critic ag)\<lparr>cn_parameters := cn_parameters (target_critic ag1)\<rparr>,
                     target_actor :=
                       (target_actor ag)\<lparr>an_parameters := an_parameters (target_actor ag1)\<rparr>\<rparr>"
    unfolding nc na by (simp add: ag1_def)
  have sc: "soft_updated ?t ?pc ?qc (cn_parameters (target_critic ag1))"
    unfolding nc by (rule blended_soft_updated [OF c])
  have sa: "soft_updated ?t ?pa ?qa (an_parameters (target_actor ag1))"
    unfolding na by (rule blended_soft_updated [OF a])
  have ne: "0 \<le> ?t \<and> ?t \<le> 1 \<longrightarrow>
              near_spec_soft_update ?t ?pc ?qc (cn_parameters (target_critic ag1)) \<and>
              near_spec_soft_update ?t ?pa ?qa (an_parameters (target_actor ag1))"
    unfolding nc na using blended_near_spec [OF c] blended_near_spec [OF a] by simp
  have 1: "\<exists>ag'. update_network_parameters t ag = Inr ag' \<and>
            ag' = ag\<lparr>target_critic :=
                       (target_critic ag)\<lparr>cn_parameters := cn_parameters (target_critic ag')\<rparr>,
                     target_actor :=
                       (target_actor ag)\<lparr>an_parameters := an_parameters (target_actor ag')\<rparr>\<rparr> \<and>
            soft_updated ?t ?pc ?qc (cn_parameters (target_critic ag')) \<and>
            soft_updated ?t ?pa ?qa (an_parameters (target_actor ag')) \<and>
            (0 \<le> ?t \<and> ?t \<le> 1 \<longrightarrow>
               near_spec_soft_update ?t ?pc ?qc (cn_parameters (target_critic ag')) \<and>
               near_spec_soft_update ?t ?pa ?qa (an_parameters (target_actor ag')))"
    by (intro exI [of _ ag1] conjI) (rule u, rule fr, rule sc, rule sa, rule ne)
  have 2: "float32_params ?pc \<and> float32_params ?pa \<longrightarrow>
              (\<exists>ag'. update_network_parameters (Some 1) ag = Inr ag' \<and>
                 cn_parameters (target_critic ag') = cn_parameters (critic ag) \<and>
                 an_parameters (target_actor ag') = an_parameters (actor ag) \<and>
                 critic ag' = critic ag \<and> actor ag' = actor ag)"
  proof
    assume f: "float32_params ?pc \<and> float32_params ?pa"
    show "\<exists>ag'. update_network_parameters (Some 1) ag = Inr ag' \<and>
                 cn_parameters (target_critic ag') = cn_parameters (critic ag) \<and>
                 an_parameters (target_actor ag') = an_parameters (actor ag) \<and>
                 critic ag' = critic ag \<and> actor ag' = actor ag"
      using f by (simp add: update_network_parameters_same_architecture [OF c a]
          blended_one [OF c] blended_one [OF a])
  qed
  have 3: "\<exists>ag'. Agent_Multi_init d actor0 critic0 target_actor0 target_critic0 opt_a opt_c
                  = Inr ag' \<and>
                an_parameters (actor ag') = actor0 \<and> cn_parameters (critic ag') = critic0 \<and>
                an_parameters (target_actor ag') = an_parameters (actor ag') \<and>
                cn_parameters (target_critic ag') = cn_parameters (critic ag')"
    by (rule Agent_Multi_init_copies [OF c0 a0 fc0 fa0 box])
  show ?thesis using 1 2 3 by (intro conjI)
qed

text \<open>
  The theorem at the demonstration agent, whose \<open>tau\<close> is \<open>1/2\<close>: the soft update takes
  the target critic's parameters \<open>[0, 4]\<close> to \<open>[1/2, 3]\<close> under the online \<open>[1, 2]\<close> and
  the target actor's parameter 0 to \<open>1/2\<close> under the online 1; the update with
  \<open>tau = 1\<close> copies the online parameters.
\<close>

theorem soft_update_rule_witness:
  "(\<exists>ag'. update_network_parameters None demo_agent = Inr ag' \<and>
          map fst (cn_parameters (target_critic ag')) = [''q.weight''] \<and>
          snd (cn_parameters (target_critic ag') ! 0) ! 0 = 1/2 \<and>
          snd (cn_parameters (target_critic ag') ! 0) ! 1 = 3 \<and>
          snd (an_parameters (target_actor ag') ! 0) ! 0 = 1/2)
   \<and> (\<exists>ag'. update_network_parameters (Some 1) demo_agent = Inr ag' \<and>
          cn_parameters (target_critic ag') = [(''q.weight'', [1, 2])] \<and>
          an_parameters (target_actor ag') = [(''mu.weight'', [1])])"
proof -
  have c: "same_architecture (cn_parameters (critic demo_agent))
             (cn_parameters (target_critic demo_agent))"
    by (simp add: same_architecture_def demo_agent_def)
  have a: "same_architecture (an_parameters (actor demo_agent))
             (an_parameters (target_actor demo_agent))"
    by (simp add: same_architecture_def demo_agent_def)
  have b: "length (high (action_space (agent_init_dict demo_agent)))
             = length (low (action_space (agent_init_dict demo_agent)))"
    by (simp add: demo_agent_def)
  have pc: "cn_parameters (critic demo_agent) = [(''q.weight'', [1, 2])]"
    and qc: "cn_parameters (target_critic demo_agent) = [(''q.weight'', [0, 4])]"
    and pa: "an_parameters (actor demo_agent) = [(''mu.weight'', [1])]"
    and qa: "an_parameters (target_actor demo_agent) = [(''mu.weight'', [0])]"
    and tt: "(case None of None \<Rightarrow> tau demo_agent | Some v \<Rightarrow> v) = 1/2"
    by (simp_all add: demo_agent_def)
  have fc: "float32_params (cn_parameters (critic demo_agent))"
    and fa: "float32_params (an_parameters (actor demo_agent))"
    unfolding pc pa by (simp_all add: float32_params_def float32_def fl_one fl_numeral)
  note th = soft_update_rule [OF c a c a fc fa b]
  have "\<exists>ag'. update_network_parameters None demo_agent = Inr ag' \<and>
            ag' = demo_agent\<lparr>target_critic :=
                       (target_critic demo_agent)\<lparr>cn_parameters := cn_parameters (target_critic ag')\<rparr>,
                     target_actor :=
                       (target_actor demo_agent)\<lparr>an_parameters := an_parameters (target_actor ag')\<rparr>\<rparr> \<and>
            soft_updated (1/2) [(''q.weight'', [1, 2])] [(''q.weight'', [0, 4])]
              (cn_parameters (target_critic ag')) \<and>
            soft_updated (1/2) [(''mu.weight'', [1])] [(''mu.weight'', [0])]
              (an_parameters (target_actor ag')) \<and>
            (0 \<le> (1/2::real) \<and> (1/2::real) \<le> 1 \<longrightarrow>
               near_spec_soft_update (1/2) [(''q.weight'', [1, 2])] [(''q.weight'', [0, 4])]
                 (cn_parameters (target_critic ag')) \<and>
               near_spec_soft_update (1/2) [(''mu.weight'', [1])] [(''mu.weight'', [0])]
                 (an_parameters (target_actor ag')))"
    using th [of None, THEN conjunct1] unfolding tt pc qc pa qa .
  then obtain ag' where u: "update_network_parameters None demo_agent = Inr ag'"
    and sc: "soft_updated (1/2) [(''q.weight'', [1, 2])] [(''q.weight'', [0, 4])]
              (cn_parameters (target_critic ag'))"
    and sa: "soft_updated (1/2) [(''mu.weight'', [1])] [(''mu.weight'', [0])]
              (an_parameters (target_actor ag'))"
    by (elim exE conjE)
  have h: "fl 24 2 = 2" "fl 24 3 = 3" "fl 24 4 = 4" by (simp_all add: fl_numeral)
  have n: "map fst (cn_parameters (target_critic ag')) = [''q.weight'']"
    using sc by (simp add: soft_updated_def)
  have c0: "snd (cn_parameters (target_critic ag') ! 0) ! 0 = 1/2"
    using sc by (simp add: soft_updated_def float32_def float64_def fl_one fl_half)
  have c1: "snd (cn_parameters (target_critic ag') ! 0) ! 1 = 3"
    using sc by (simp add: soft_updated_def float32_def float64_def fl_one fl_half h)
  have a0: "snd (an_parameters (target_actor ag') ! 0) ! 0 = 1/2"
    using sa by (simp add: soft_updated_def float32_def float64_def fl_one fl_half)
  have A: "\<exists>ag'. update_network_parameters None demo_agent = Inr ag' \<and>
          map fst (cn_parameters (target_critic ag')) = [''q.weight''] \<and>
          snd (cn_parameters (target_critic ag') ! 0) ! 0 = 1/2 \<and>
          snd (cn_parameters (target_critic ag') ! 0) ! 1 = 3 \<and>
          snd (an_parameters (target_actor ag') ! 0) ! 0 = 1/2"
    by (intro exI [of _ ag'] conjI) (rule u, rule n, rule c0, rule c1, rule a0)
  have "\<exists>ag'. update_network_parameters (Some 1) demo_agent = Inr ag' \<and>
                cn_parameters (target_critic ag') = cn_parameters (critic demo_agent) \<and>
                an_parameters (target_actor ag') = an_parameters (actor demo_agent) \<and>
                critic ag' = critic demo_agent \<and> actor ag' = actor demo_agent"
    using th [of None, THEN conjunct2, THEN conjunct1] fc fa by simp
  then obtain ag2 where "update_network_parameters (Some 1) demo_agent = Inr ag2"
    "cn_parameters (target_critic ag2) = cn_parameters (critic demo_agent)"
    "an_parameters (target_actor ag2) = an_parameters (actor demo_agent)"
    by (elim exE conjE)
  then have B: "\<exists>ag'. update_network_parameters (Some 1) demo_agent = Inr ag' \<and>
          cn_parameters (target_critic ag') = [(''q.weight'', [1, 2])] \<and>
          an_parameters (target_actor ag') = [(''mu.weight'', [1])]"
    unfolding pc pa by (intro exI conjI)
  show ?thesis using A B by (rule conjI)
qed







section \<open>The guard of learn and the choice of an action\<close>

text \<open>
  C4. When the buffer's count of stored transitions is below the batch size, \<^verbatim>\<open>learn\<close> of
  either agent returns at once: whatever the agent list, the index and the random stream,
  the agent after the call is the agent before it, with every network parameter, both
  optimizer states, the buffer and the noise state unchanged.
\<close>

theorem learn_guard_noop:
  assumes "mem_cntr (memory self) < batch_size self"
  shows "Agent_Single_learn be rnd agents_list own_idx self = Inr self
         \<and> Agent_Multi_learn be rnd agents_list own_idx self = Inr self"
  using assms by (simp add: Agent_Single_learn_def Agent_Multi_learn_def)

text \<open>
  The theorem at the demonstration agent with batch size three and two stored transitions.
\<close>

theorem learn_guard_noop_witness:
  "Agent_Single_learn demo_torch (\<lambda>i. i) [demo_agent\<lparr>batch_size := 3\<rparr>] 0
     (demo_agent\<lparr>batch_size := 3\<rparr>) = Inr (demo_agent\<lparr>batch_size := 3\<rparr>)
   \<and> Agent_Multi_learn demo_torch (\<lambda>i. i) [demo_agent\<lparr>batch_size := 3\<rparr>] 0
     (demo_agent\<lparr>batch_size := 3\<rparr>) = Inr (demo_agent\<lparr>batch_size := 3\<rparr>)"
proof -
  have g: "mem_cntr (memory (demo_agent\<lparr>batch_size := 3\<rparr>))
             < batch_size (demo_agent\<lparr>batch_size := 3\<rparr>)"
    by (simp add: demo_agent_def)
  show ?thesis by (rule learn_guard_noop [OF g])
qed






lemma float32_one: "float32 1 = 1"
  by (simp add: float32_def fl_one)

lemma T_tanh_zero [simp]: "T_tanh 0 = 0"
  by (simp add: T_tanh_def float32_def)
















section \<open>The TD target\<close>

lemma np_take_Inr:
  "np_take xs idxs = Inr ys \<Longrightarrow> ys = map ((!) xs) idxs \<and> (\<forall>i \<in> set idxs. i < length xs)"
  by (auto simp: np_take_def split: if_splits)

lemma get_samples_Inr:
  assumes "get_samples_from_buffer b idxs = Inr (obs, act, rwd, new_obs, dn)"
  shows "obs = (input_shape b, map ((!) (obs_memory b)) idxs)"
    and "act = (actions_shape b, map ((!) (action_memory b)) idxs)"
    and "rwd = map ((!) (reward_memory b)) idxs"
    and "new_obs = (input_shape b, map ((!) (obs_next_memory b)) idxs)"
    and "dn = map ((!) (terminal_memory b)) idxs"
  using assms
  by (auto simp: get_samples_from_buffer_def split: sum.splits dest: np_take_Inr)

lemma get_batch_idxs_Inr:
  "get_batch_idxs rnd b n = Inr idxs \<Longrightarrow> length idxs = n"
  by (auto simp: get_batch_idxs_def Let_def split: if_splits)

lemma ActorNetwork_forward_Inr:
  assumes "ActorNetwork_forward be net st = Inr out"
  shows "out = (an_n_actions net,
                map (\<lambda>r. map T_tanh (actor_layers be (an_parameters net) r)) (snd st))"
  using assms by (auto simp: ActorNetwork_forward_def split: if_splits)





lemma sequence_e_Inr:
  "sequence_e xs = Inr vs \<Longrightarrow> length vs = length xs \<and> (\<forall>j < length xs. xs ! j = Inr (vs ! j))"
proof (induction xs arbitrary: vs)
  case Nil
  then show ?case by simp
next
  case (Cons x xs)
  from Cons.prems obtain v vs' where x: "x = Inr v" and r: "sequence_e xs = Inr vs'"
    and vs: "vs = v # vs'"
    by (auto split: sum.splits)
  from Cons.IH [OF r] have ih: "length vs' = length xs" "\<forall>j < length xs. xs ! j = Inr (vs' ! j)"
    by simp_all
  show ?case
  proof (intro conjI allI impI)
    show "length vs = length (x # xs)" using ih(1) vs by simp
  next
    fix j assume "j < length (x # xs)"
    then show "(x # xs) ! j = Inr (vs ! j)"
      using ih(2) x vs by (cases j) simp_all
  qed
qed


lemma get_batch_idxs_Inl: "get_batch_idxs rnd b n = Inl e \<Longrightarrow> e = ValueError"
  by (auto simp: get_batch_idxs_def Let_def split: if_splits)

lemma get_samples_Inl: "get_samples_from_buffer b idxs = Inl e \<Longrightarrow> e = IndexError"
  by (auto simp: get_samples_from_buffer_def np_take_def split: sum.splits if_splits)

lemma ActorNetwork_forward_Inl: "ActorNetwork_forward be net st = Inl e \<Longrightarrow> e = SizeMismatch"
  by (auto simp: ActorNetwork_forward_def split: if_splits)

lemma T_cat_dim1_rows:
  assumes "ts \<noteq> []" and "\<forall>t \<in> set ts. length (snd t) = r"
  shows "\<exists>t. T_cat_dim1 ts = Inr t \<and> length (snd t) = r"
  using assms by (cases ts) (auto simp: T_cat_dim1_def)

lemma stacked_rows:
  assumes "\<forall>t \<in> set others. length (snd t) = b"
  shows "length (concat (map snd others)) = length others * b"
  using assms by (induction others) simp_all

lemma others_features_stacked:
  assumes two: "2 \<le> length others"
    and rows: "\<forall>t \<in> set others. length (snd t) = b"
    and js: "length (snd js) = b"
    and pos: "0 < b"
  shows "others_features js others = Inl SizeMismatch"
proof (cases "T_cat_dim0 others")
  case (Inl e)
  then have "e = SizeMismatch"
    using two by (auto simp: T_cat_dim0_def split: list.splits if_splits)
  then show ?thesis using Inl by (simp add: others_features_def)
next
  case (Inr t)
  then have "snd t = concat (map snd others)"
    by (auto simp: T_cat_dim0_def split: list.splits if_splits)
  then have "length (snd t) = length others * b"
    using stacked_rows [OF rows] by simp
  moreover have "b < length others * b" using two pos by simp
  ultimately have "length (snd t) \<noteq> length (snd js)" using js by simp
  then show ?thesis using Inr by (simp add: others_features_def T_cat_dim1_def)
qed

lemma others_features_one:
  assumes "length (snd t) = length (snd js)"
  shows "others_features js [t] = Inr (fst js + fst t, map2 (@) (snd js) (snd t))"
proof -
  have "map (\<lambda>i. concat (map (\<lambda>u. snd u ! i) [js, t])) [0..<length (snd js)]
          = map2 (@) (snd js) (snd t)"
  proof (rule nth_equalityI)
    show "length (map (\<lambda>i. concat (map (\<lambda>u. snd u ! i) [js, t])) [0..<length (snd js)])
            = length (map2 (@) (snd js) (snd t))"
      using assms by simp
  next
    fix i
    assume "i < length (map (\<lambda>i. concat (map (\<lambda>u. snd u ! i) [js, t])) [0..<length (snd js)])"
    then have i: "i < length (snd js)" by simp
    show "map (\<lambda>i. concat (map (\<lambda>u. snd u ! i) [js, t])) [0..<length (snd js)] ! i
            = map2 (@) (snd js) (snd t) ! i"
      using i assms by simp
  qed
  then show ?thesis
    using assms by (simp add: others_features_def T_cat_dim0_def T_cat_dim1_def)
qed

lemma sequence_e_forward_Inl:
  "sequence_e (map (\<lambda>(ag, new_obs). ActorNetwork_forward be (target_actor ag) new_obs) zs) = Inl e
   \<Longrightarrow> e = SizeMismatch"
  by (induction zs) (auto split: sum.splits dest: ActorNetwork_forward_Inl)

lemma multi_locals_three_agents:
  assumes s: "sequence_e (map (\<lambda>ag. get_samples_from_buffer (memory ag) idxs) agents_list)
                = Inr samples"
    and n: "3 \<le> length agents_list"
    and own: "own_idx < length agents_list"
    and pos: "0 < length idxs"
  shows "Agent_Multi_learn_locals be idxs agents_list own_idx self = Inl SizeMismatch"
proof -
  let ?f = "\<lambda>ag. get_samples_from_buffer (memory ag) idxs"
  let ?obs_n = "map (\<lambda>(obs, act, rwd, new_obs, dn). obs) samples"
  let ?new_obs_n = "map (\<lambda>(obs, act, rwd, new_obs, dn). new_obs) samples"
  let ?fw = "map (\<lambda>(ag, new_obs). ActorNetwork_forward be (target_actor ag) new_obs)
               (zip agents_list ?new_obs_n)"
  from sequence_e_Inr [OF s]
  have ls: "length samples = length agents_list"
    and sj: "\<forall>j < length agents_list. ?f (agents_list ! j) = Inr (samples ! j)"
    by simp_all
  have ne: "samples \<noteq> []" using ls n by auto
  have rows: "length (snd ((\<lambda>(obs, act, rwd, new_obs, dn). obs) (samples ! j))) = length idxs
            \<and> length (snd ((\<lambda>(obs, act, rwd, new_obs, dn). new_obs) (samples ! j))) = length idxs"
    if "j < length agents_list" for j
  proof -
    obtain obs act rwd new_obs dn where e: "samples ! j = (obs, act, rwd, new_obs, dn)"
      by (cases "samples ! j")
    have "?f (agents_list ! j) = Inr (obs, act, rwd, new_obs, dn)"
      using sj that e by simp
    from get_samples_Inr(1) [OF this] get_samples_Inr(4) [OF this]
    show ?thesis by (simp add: e)
  qed
  have ro: "\<forall>t \<in> set ?obs_n. length (snd t) = length idxs"
  proof
    fix t assume "t \<in> set ?obs_n"
    then obtain j where j: "j < length samples" and t: "t = ?obs_n ! j"
      by (auto simp: in_set_conv_nth)
    have "j < length agents_list" using j ls by simp
    from rows [OF this] show "length (snd t) = length idxs" using j t by simp
  qed
  have rn: "\<forall>t \<in> set ?new_obs_n. length (snd t) = length idxs"
  proof
    fix t assume "t \<in> set ?new_obs_n"
    then obtain j where j: "j < length samples" and t: "t = ?new_obs_n ! j"
      by (auto simp: in_set_conv_nth)
    have "j < length agents_list" using j ls by simp
    from rows [OF this] show "length (snd t) = length idxs" using j t by simp
  qed
  obtain state_t where st: "T_cat_dim1 ?obs_n = Inr state_t"
    using T_cat_dim1_rows [OF _ ro] ne by auto
  obtain new_state_t where nst: "T_cat_dim1 ?new_obs_n = Inr new_state_t"
    and nr: "length (snd new_state_t) = length idxs"
    using T_cat_dim1_rows [OF _ rn] ne by auto
  show ?thesis
  proof (cases "sequence_e ?fw")
    case (Inl e)
    then have "e = SizeMismatch" by (rule sequence_e_forward_Inl)
    then show ?thesis
      using Inl ne by (simp add: Agent_Multi_learn_locals_def s Let_def st nst)
  next
    case (Inr tnan)
    from sequence_e_Inr [OF Inr]
    have lt: "length tnan = length agents_list"
      and tj: "\<forall>j < length agents_list.
                 ActorNetwork_forward be (target_actor (agents_list ! j)) (?new_obs_n ! j)
                   = Inr (tnan ! j)"
      using ls by simp_all
    have tr: "length (snd (tnan ! j)) = length idxs" if "j < length agents_list" for j
    proof -
      have "length (snd (tnan ! j)) = length (snd (?new_obs_n ! j))"
        using ActorNetwork_forward_Inr [OF tj [rule_format, OF that]] by simp
      then show ?thesis using rows [OF that] that ls by simp
    qed
    have trs: "\<forall>t \<in> set tnan. length (snd t) = length idxs"
    proof
      fix t assume "t \<in> set tnan"
      then obtain j where j: "j < length tnan" and t: "t = tnan ! j"
        by (auto simp: in_set_conv_nth)
      have "j < length agents_list" using j lt by simp
      from tr [OF this] show "length (snd t) = length idxs" using t by simp
    qed
    let ?others = "take own_idx tnan @ drop (Suc own_idx) tnan"
    have pp: "py_pop tnan own_idx = Inr (tnan ! own_idx, ?others)"
      using own lt by (simp add: py_pop_def)
    have two: "2 \<le> length ?others" using own lt n by simp
    have "set ?others \<subseteq> set tnan"
      using set_take_subset [of own_idx tnan] set_drop_subset [of "Suc own_idx" tnan] by auto
    then have ors: "\<forall>t \<in> set ?others. length (snd t) = length idxs"
      using trs by blast
    have "others_features new_state_t ?others = Inl SizeMismatch"
      by (rule others_features_stacked [OF two ors nr pos])
    then show ?thesis
      using Inr ne by (simp add: Agent_Multi_learn_locals_def s Let_def st nst pp)
  qed
qed








lemma demo_single_locals:
  "Agent_Single_learn_locals demo_torch [0, 1] demo_single =
     Inr \<lparr>target_value = [6, 7], target_critic_next_value = [2, 3], critic_value = [2, 2],
          input_value_fn = (1, [[1], [2]]), own_actual_action = (1, [[1], [0]]),
          own_obs = (1, [[1], [2]])\<rparr>"
  by (simp add: Agent_Single_learn_locals_def get_samples_from_buffer_def np_take_def
      demo_single_def demo_agent_def demo_torch_def ActorNetwork_forward_def
      CriticNetwork_forward_def td_target_def torch_elementwise_def)

lemma demo_multi_locals:
  "Agent_Multi_learn_locals demo_torch [0, 1] [demo_agent, demo_agent] 0 demo_agent =
     Inr \<lparr>target_value = [7, 7], target_critic_next_value = [4, 6], critic_value = [4, 4],
          input_value_fn = (3, [[1, 1, 1], [2, 2, 0]]), own_actual_action = (1, [[1], [0]]),
          own_obs = (1, [[1], [2]])\<rparr>"
  by (simp add: Agent_Multi_learn_locals_def get_samples_from_buffer_def np_take_def
      demo_agent_def demo_torch_def ActorNetwork_forward_def others_features_def
      T_cat_dim0_def T_cat_dim1_def py_pop_def Let_def
      CriticNetwork_forward_def td_target_def torch_elementwise_def)

lemma demo_idxs:
  "get_batch_idxs (\<lambda>i. i) (memory demo_agent) (batch_size demo_agent) = Inr [0, 1]"
  "get_batch_idxs (\<lambda>i. i) (memory demo_single) (batch_size demo_single) = Inr [0, 1]"
  "get_batch_idxs (\<lambda>i. i) (memory demo_bold) (batch_size demo_bold) = Inr [0, 1]"
  "get_batch_idxs (\<lambda>i. i) (memory demo_bold_single) (batch_size demo_bold_single) = Inr [0, 1]"
  by (simp_all add: get_batch_idxs_def demo_single_def demo_agent_def demo_bold_def
      demo_bold_single_def upt_rec)




section \<open>Other agents' rewards and the TD target\<close>

lemma get_samples_other_rewards:
  assumes "length r = length (reward_memory b)" and "length t = length (terminal_memory b)"
  shows "rel_sum (=) same_features
           (get_samples_from_buffer (b\<lparr>reward_memory := r, terminal_memory := t\<rparr>) idxs)
           (get_samples_from_buffer b idxs)"
  using assms
  by (auto simp: get_samples_from_buffer_def np_take_def same_features_def split: sum.splits)

lemma rel_sum_same_features_refl: "rel_sum (=) same_features x x"
  by (cases x) (simp_all add: same_features_def)

lemma sequence_e_rel:
  assumes "list_all2 (rel_sum (=) R) xs ys"
  shows "rel_sum (=) (list_all2 R) (sequence_e xs) (sequence_e ys)"
  using assms
proof (induction rule: list_all2_induct)
  case Nil
  then show ?case by simp
next
  case (Cons x xs y ys)
  show ?case
  proof (cases x)
    case (Inl e)
    then show ?thesis using Cons.hyps(1) by (cases y) simp_all
  next
    case (Inr v)
    then obtain w where y: "y = Inr w" and vw: "R v w"
      using Cons.hyps(1) by (cases y) simp_all
    show ?thesis
      using Cons.IH Inr y vw
      by (cases "sequence_e xs"; cases "sequence_e ys") simp_all
  qed
qed

lemma with_other_rewards_length [simp]:
  "length (with_other_rewards own_idx rts ags) = length ags"
  by (simp add: with_other_rewards_def)

lemma with_other_rewards_own:
  "own_idx < length ags \<Longrightarrow> with_other_rewards own_idx rts ags ! own_idx = ags ! own_idx"
  by (simp add: with_other_rewards_def)

lemma with_other_rewards_target_actor:
  "map target_actor (with_other_rewards own_idx rts ags) = map target_actor ags"
  by (rule nth_equalityI) (simp_all add: with_other_rewards_def)

lemma map_zip_through:
  assumes "map g as' = map g as"
  shows "map (\<lambda>(a, x). F (g a) x) (zip as' xs) = map (\<lambda>(a, x). F (g a) x) (zip as xs)"
proof -
  have "\<And>bs. map (\<lambda>(a, x). F (g a) x) (zip bs xs) = map (\<lambda>(t, x). F t x) (zip (map g bs) xs)"
    by (simp add: zip_map1 case_prod_beta comp_def)
  then show ?thesis using assms by simp
qed

lemma multi_locals_other_rewards:
  assumes own: "own_idx < length agents_list"
    and len: "\<forall>j < length agents_list. j \<noteq> own_idx \<longrightarrow>
                length (fst (rts ! j)) = length (reward_memory (memory (agents_list ! j))) \<and>
                length (snd (rts ! j)) = length (terminal_memory (memory (agents_list ! j)))"
  shows "Agent_Multi_learn_locals be idxs (with_other_rewards own_idx rts agents_list) own_idx self
           = Agent_Multi_learn_locals be idxs agents_list own_idx self"
proof -
  let ?ags' = "with_other_rewards own_idx rts agents_list"
  let ?f = "\<lambda>ag. get_samples_from_buffer (memory ag) idxs"
  have rel: "list_all2 (rel_sum (=) same_features) (map ?f ?ags') (map ?f agents_list)"
  proof (rule list_all2_all_nthI)
    show "length (map ?f ?ags') = length (map ?f agents_list)" by simp
  next
    fix j assume "j < length (map ?f ?ags')"
    then have j: "j < length agents_list" by simp
    show "rel_sum (=) same_features (map ?f ?ags' ! j) (map ?f agents_list ! j)"
    proof (cases "j = own_idx")
      case True
      then show ?thesis
        using j by (simp add: with_other_rewards_own rel_sum_same_features_refl)
    next
      case False
      have "?ags' ! j = (agents_list ! j)
                     \<lparr>memory := (memory (agents_list ! j))
                        \<lparr>reward_memory := fst (rts ! j), terminal_memory := snd (rts ! j)\<rparr>\<rparr>"
        using j False by (simp add: with_other_rewards_def)
      then show ?thesis
        using j get_samples_other_rewards [of "fst (rts ! j)" "memory (agents_list ! j)"
            "snd (rts ! j)" idxs] len False
        by simp
    qed
  qed
  note sr = sequence_e_rel [OF rel]
  show ?thesis
  proof (cases "sequence_e (map ?f agents_list)")
    case (Inl e)
    then have "sequence_e (map ?f ?ags') = Inl e"
      using sr by (cases "sequence_e (map ?f ?ags')") simp_all
    then show ?thesis using Inl by (simp add: Agent_Multi_learn_locals_def)
  next
    case (Inr samples)
    then obtain samples' where s': "sequence_e (map ?f ?ags') = Inr samples'"
      and sim: "list_all2 same_features samples' samples"
      using sr by (cases "sequence_e (map ?f ?ags')") simp_all
    have l: "length samples' = length samples" using sim by (rule list_all2_lengthD)
    have ls: "length samples = length agents_list" using sequence_e_Inr [OF Inr] by simp
    have simj: "same_features (samples' ! j) (samples ! j)" if "j < length samples" for j
      using sim that l by (simp add: list_all2_conv_all_nth)
    have E1: "map (\<lambda>(obs, act, rwd, new_obs, dn). obs) samples'
                = map (\<lambda>(obs, act, rwd, new_obs, dn). obs) samples"
      using l simj by (auto simp: list_eq_iff_nth_eq same_features_def case_prod_beta)
    have E2: "map (\<lambda>(obs, act, rwd, new_obs, dn). act) samples'
                = map (\<lambda>(obs, act, rwd, new_obs, dn). act) samples"
      using l simj by (auto simp: list_eq_iff_nth_eq same_features_def case_prod_beta)
    have E3: "map (\<lambda>(obs, act, rwd, new_obs, dn). new_obs) samples'
                = map (\<lambda>(obs, act, rwd, new_obs, dn). new_obs) samples"
      using l simj by (auto simp: list_eq_iff_nth_eq same_features_def case_prod_beta)
    have "Inr (samples' ! own_idx) = map ?f ?ags' ! own_idx"
      using sequence_e_Inr [OF s'] own by simp
    also have "\<dots> = map ?f agents_list ! own_idx"
      using own by (simp add: with_other_rewards_own)
    also have "\<dots> = Inr (samples ! own_idx)"
      using sequence_e_Inr [OF Inr] own by simp
    finally have so: "samples' ! own_idx = samples ! own_idx" by simp
    have E4: "map (\<lambda>(obs, act, rwd, new_obs, dn). rwd) samples' ! own_idx
                = map (\<lambda>(obs, act, rwd, new_obs, dn). rwd) samples ! own_idx"
      using own l ls so by simp
    have E5: "map (\<lambda>(obs, act, rwd, new_obs, dn). dn) samples' ! own_idx
                = map (\<lambda>(obs, act, rwd, new_obs, dn). dn) samples ! own_idx"
      using own l ls so by simp
    have E6: "(samples' = []) = (samples = [])" using l by auto
    have E7: "map (\<lambda>(ag, new_obs). ActorNetwork_forward be (target_actor ag) new_obs)
                (zip ?ags' (map (\<lambda>(obs, act, rwd, new_obs, dn). new_obs) samples))
              = map (\<lambda>(ag, new_obs). ActorNetwork_forward be (target_actor ag) new_obs)
                (zip agents_list (map (\<lambda>(obs, act, rwd, new_obs, dn). new_obs) samples))"
      by (rule map_zip_through [OF with_other_rewards_target_actor])
    show ?thesis
      unfolding Agent_Multi_learn_locals_def s' Inr sum.case Let_def E1 E2 E3 E4 E5 E6 E7
      by (rule refl)
  qed
qed


text \<open>
  C3. Take a joint update by the agent at \<open>own_idx\<close> and a second run in which the other
  agents' buffers hold other rewards and other terminal flags (arrays of the same sizes)
  while all observations, actions and next observations, the own agent's buffer and the
  batch indices are the same. Then the step computes the same tensors, in particular the
  same TD target, or raises the same exception, and \<^verbatim>\<open>learn\<close> as a whole has the same
  outcome: of the other agents only observations and actions enter.
\<close>

theorem td_target_ignores_peer_rewards:
  assumes own: "own_idx < length agents_list"
    and len: "\<forall>j < length agents_list. j \<noteq> own_idx \<longrightarrow>
                length (fst (rts ! j)) = length (reward_memory (memory (agents_list ! j))) \<and>
                length (snd (rts ! j)) = length (terminal_memory (memory (agents_list ! j)))"
  shows "map_sum id target_value
           (Agent_Multi_learn_locals be idxs (with_other_rewards own_idx rts agents_list)
              own_idx self)
         = map_sum id target_value (Agent_Multi_learn_locals be idxs agents_list own_idx self)
         \<and> Agent_Multi_learn_locals be idxs (with_other_rewards own_idx rts agents_list)
              own_idx self
           = Agent_Multi_learn_locals be idxs agents_list own_idx self
         \<and> Agent_Multi_learn be rnd (with_other_rewards own_idx rts agents_list) own_idx self
           = Agent_Multi_learn be rnd agents_list own_idx self"
proof -
  have e: "Agent_Multi_learn_locals be idxs (with_other_rewards own_idx rts agents_list)
              own_idx self
           = Agent_Multi_learn_locals be idxs agents_list own_idx self" for idxs
    by (rule multi_locals_other_rewards [OF own len])
  have "Agent_Multi_learn be rnd (with_other_rewards own_idx rts agents_list) own_idx self
           = Agent_Multi_learn be rnd agents_list own_idx self"
    unfolding Agent_Multi_learn_def e by (rule refl)
  then show ?thesis using e by simp
qed

text \<open>
  The theorem at two demonstration agents: with the second agent's rewards all 9 and its
  flags all terminal, the first agent's TD target is what it was, \<open>[7, 7]\<close>.
\<close>

theorem td_target_ignores_peer_rewards_witness:
  "map_sum id target_value
     (Agent_Multi_learn_locals demo_torch [0, 1]
        (with_other_rewards 0 [([], []), ([9, 9, 9, 9], [0, 0, 0, 0])] [demo_agent, demo_agent])
        0 demo_agent)
   = Inr [7, 7]"
proof -
  have own: "0 < length [demo_agent, demo_agent]" by simp
  have len: "\<forall>j < length [demo_agent, demo_agent]. j \<noteq> 0 \<longrightarrow>
                length (fst ([([], []), ([9, 9, 9, 9], [0, 0, 0, 0])] ! j))
                  = length (reward_memory (memory ([demo_agent, demo_agent] ! j))) \<and>
                length (snd ([([], []), ([9, 9, 9, 9], [0, 0, 0, 0])] ! j))
                  = length (terminal_memory (memory ([demo_agent, demo_agent] ! j)))"
    by (auto simp: less_Suc_eq demo_agent_def)
  note th = td_target_ignores_peer_rewards [OF own len, of demo_torch "[0, 1]" demo_agent]
  show ?thesis
    unfolding th [THEN conjunct1] demo_multi_locals by simp
qed

section \<open>A joint update with more than two agents\<close>

lemma sequence_e_fetch_Inl:
  "sequence_e (map (\<lambda>ag. get_samples_from_buffer (memory ag) idxs) ags) = Inl e
   \<Longrightarrow> e = IndexError"
  by (induction ags) (auto split: sum.splits dest: get_samples_Inl)

text \<open>
  C10, as the code has it. Take a joint update with at least three agents, a batch size
  of at least one, and the guard passed. The call always raises: ValueError or IndexError
  if drawing the batch or fetching it from some agent's buffer fails, and otherwise the
  size mismatch, because \<^verbatim>\<open>T.cat\<close> stacks the other agents' action tensors along
  dimension 0 into \<open>n_others * batch_size\<close> rows, which cannot be joined along dimension
  1 with the \<open>batch_size\<close> rows of the joint state. With one other agent the features are
  joined row by row.
\<close>

theorem learn_three_agents_raises:
  assumes guard: "\<not> mem_cntr (memory self) < batch_size self"
    and pos: "0 < batch_size self"
    and n: "3 \<le> length agents_list"
    and own: "own_idx < length agents_list"
  shows "(Agent_Multi_learn be rnd agents_list own_idx self = Inl SizeMismatch
            \<or> Agent_Multi_learn be rnd agents_list own_idx self = Inl IndexError
            \<or> Agent_Multi_learn be rnd agents_list own_idx self = Inl ValueError)
         \<and> (\<forall>idxs samples.
               get_batch_idxs rnd (memory self) (batch_size self) = Inr idxs \<and>
               sequence_e (map (\<lambda>ag. get_samples_from_buffer (memory ag) idxs) agents_list)
                 = Inr samples \<longrightarrow>
               Agent_Multi_learn be rnd agents_list own_idx self = Inl SizeMismatch)
         \<and> (\<forall>js others.
               2 \<le> length others \<and> (\<forall>t \<in> set others. length (snd t) = batch_size self) \<and>
               length (snd js) = batch_size self \<longrightarrow>
               length (concat (map snd others)) = length others * batch_size self \<and>
               others_features js others = Inl SizeMismatch)
         \<and> (\<forall>js t. length (snd t) = length (snd js) \<longrightarrow>
               others_features js [t] = Inr (fst js + fst t, map2 (@) (snd js) (snd t)))"
proof -
  let ?f = "\<lambda>idxs ag. get_samples_from_buffer (memory ag) idxs"
  have B: "Agent_Multi_learn be rnd agents_list own_idx self = Inl SizeMismatch"
    if i: "get_batch_idxs rnd (memory self) (batch_size self) = Inr idxs"
      and s: "sequence_e (map (?f idxs) agents_list) = Inr samples" for idxs samples
  proof -
    have "0 < length idxs" using get_batch_idxs_Inr [OF i] pos by simp
    from multi_locals_three_agents [OF s n own this]
    show ?thesis using guard i by (simp add: Agent_Multi_learn_def)
  qed
  have A: "Agent_Multi_learn be rnd agents_list own_idx self = Inl SizeMismatch
            \<or> Agent_Multi_learn be rnd agents_list own_idx self = Inl IndexError
            \<or> Agent_Multi_learn be rnd agents_list own_idx self = Inl ValueError"
  proof (cases "get_batch_idxs rnd (memory self) (batch_size self)")
    case (Inl e)
    then have "e = ValueError" by (rule get_batch_idxs_Inl)
    then show ?thesis using guard Inl by (simp add: Agent_Multi_learn_def)
  next
    case (Inr idxs)
    show ?thesis
    proof (cases "sequence_e (map (?f idxs) agents_list)")
      case (Inl e)
      then have "e = IndexError" by (rule sequence_e_fetch_Inl)
      then show ?thesis
        using guard Inr Inl by (simp add: Agent_Multi_learn_def Agent_Multi_learn_locals_def)
    next
      case (Inr samples)
      then show ?thesis using B [OF \<open>get_batch_idxs rnd (memory self) (batch_size self) = Inr idxs\<close>]
        by simp
    qed
  qed
  have C: "\<forall>js others.
               2 \<le> length others \<and> (\<forall>t \<in> set others. length (snd t) = batch_size self) \<and>
               length (snd js) = batch_size self \<longrightarrow>
               length (concat (map snd others)) = length others * batch_size self \<and>
               others_features js others = Inl SizeMismatch"
    using stacked_rows others_features_stacked pos by blast
  have D: "\<forall>js t. length (snd t) = length (snd js) \<longrightarrow>
               others_features js [t] = Inr (fst js + fst t, map2 (@) (snd js) (snd t))"
    using others_features_one by blast
  show ?thesis using A B C D by blast
qed

lemma demo_three_fetch:
  "sequence_e (map (\<lambda>ag. get_samples_from_buffer (memory ag) [0, 1])
                 [demo_agent, demo_agent, demo_agent])
   = Inr (replicate 3 ((1, [[1], [2]]), (1, [[1], [0]]), [5, 7], (1, [[2], [3]]), [1, 0]))"
  by (simp add: get_samples_from_buffer_def np_take_def demo_agent_def numeral_3_eq_3)

text \<open>
  The theorem at three demonstration agents (batch size two), and the features of one
  other agent joined to a joint state of two rows.
\<close>

theorem learn_three_agents_raises_witness:
  "Agent_Multi_learn demo_torch (\<lambda>i. i) [demo_agent, demo_agent, demo_agent] 0 demo_agent
     = Inl SizeMismatch
   \<and> others_features (2, [[1, 1], [2, 2]]) [(1, [[0], [0]])] = Inr (3, [[1, 1, 0], [2, 2, 0]])"
proof -
  have guard: "\<not> mem_cntr (memory demo_agent) < batch_size demo_agent"
    and pos: "0 < batch_size demo_agent"
    by (simp_all add: demo_agent_def)
  have n: "3 \<le> length [demo_agent, demo_agent, demo_agent]"
    and own: "0 < length [demo_agent, demo_agent, demo_agent]"
    by simp_all
  note th = learn_three_agents_raises [OF guard pos n own, of demo_torch "\<lambda>i. i"]
  have a: "Agent_Multi_learn demo_torch (\<lambda>i. i) [demo_agent, demo_agent, demo_agent] 0 demo_agent
             = Inl SizeMismatch"
    using th [THEN conjunct2, THEN conjunct1, rule_format, OF conjI, OF demo_idxs(1) demo_three_fetch] .
  have "others_features (2, [[1, 1], [2, 2]]) [(1, [[0], [0]])]
          = Inr (fst (2, [[1, 1], [2, 2::real]]) + fst (1::nat, [[0], [0::real]]),
                 map2 (@) (snd (2::nat, [[1, 1], [2, 2::real]])) (snd (1::nat, [[0], [0::real]])))"
    by (rule th [THEN conjunct2, THEN conjunct2, THEN conjunct2, rule_format]) simp
  then have b: "others_features (2, [[1, 1], [2, 2]]) [(1, [[0], [0]])]
                  = Inr (3, [[1, 1, 0], [2, 2, 0]])"
    by simp
  show ?thesis using a b by (rule conjI)
qed


lemma demo_empty_batch_locals:
  "Agent_Multi_learn_locals demo_torch []
     [demo_empty_batch, demo_empty_batch, demo_empty_batch] 0 demo_empty_batch
   = Inr \<lparr>target_value = [], target_critic_next_value = [], critic_value = [],
          input_value_fn = (4, []), own_actual_action = (1, []), own_obs = (1, [])\<rparr>"
  by (simp add: Agent_Multi_learn_locals_def get_samples_from_buffer_def np_take_def
      demo_empty_batch_def demo_agent_def demo_torch_def ActorNetwork_forward_def
      others_features_def T_cat_dim0_def T_cat_dim1_def py_pop_def Let_def
      CriticNetwork_forward_def td_target_def torch_elementwise_def)

lemma demo_empty_batch_update:
  "learn_update demo_torch
     \<lparr>target_value = [], target_critic_next_value = [], critic_value = [],
      input_value_fn = (4, []), own_actual_action = (1, []), own_obs = (1, [])\<rparr>
     demo_empty_batch
   = Inr (demo_empty_batch
            \<lparr>target_critic := \<lparr>cn_n_inputs = 4, cn_action_shape = 1,
                               cn_parameters = [(''q.weight'', [1/2, 3])], cn_optimizer = ()\<rparr>,
             target_actor := \<lparr>an_n_inputs = 1, an_n_actions = 1,
                              an_parameters = [(''mu.weight'', [1/2])], an_optimizer = ()\<rparr>\<rparr>)"
  by (simp add: learn_update_def demo_empty_batch_def demo_agent_def demo_torch_def
      ActorNetwork_forward_def CriticNetwork_forward_def update_network_parameters_def
      load_state_dict_def torch_elementwise_def soft_blend_def Let_def
      float32_def float64_def fl_one fl_half fl_numeral)

text \<open>
  C10 as the claim words it fails. With batch size zero the stacked tensor of two other
  agents has no rows, the feature concatenation completes, and a joint update of three
  agents whose critics take the width that concatenation gives returns without raising.
  With batch size two and a third agent whose buffer has capacity one, the fetch raises
  IndexError before any tensor is joined.
\<close>

theorem learn_three_agents_counterexample:
  "Agent_Multi_learn demo_torch (\<lambda>i. i)
     [demo_empty_batch, demo_empty_batch, demo_empty_batch] 0 demo_empty_batch
   = Inr (demo_empty_batch
            \<lparr>target_critic := \<lparr>cn_n_inputs = 4, cn_action_shape = 1,
                               cn_parameters = [(''q.weight'', [1/2, 3])], cn_optimizer = ()\<rparr>,
             target_actor := \<lparr>an_n_inputs = 1, an_n_actions = 1,
                              an_parameters = [(''mu.weight'', [1/2])], an_optimizer = ()\<rparr>\<rparr>)
   \<and> others_features (3, []) [(1, []), (1, [])] = Inr (4, [])
   \<and> Agent_Multi_learn demo_torch (\<lambda>i. i) [demo_agent, demo_agent, demo_small_buffer] 0
       demo_agent
     = Inl IndexError"
proof -
  have g: "\<not> mem_cntr (memory demo_empty_batch) < batch_size demo_empty_batch"
    and i: "get_batch_idxs (\<lambda>i. i) (memory demo_empty_batch) (batch_size demo_empty_batch)
              = Inr []"
    by (simp_all add: get_batch_idxs_def demo_empty_batch_def demo_agent_def)
  have a: "Agent_Multi_learn demo_torch (\<lambda>i. i)
     [demo_empty_batch, demo_empty_batch, demo_empty_batch] 0 demo_empty_batch
   = Inr (demo_empty_batch
            \<lparr>target_critic := \<lparr>cn_n_inputs = 4, cn_action_shape = 1,
                               cn_parameters = [(''q.weight'', [1/2, 3])], cn_optimizer = ()\<rparr>,
             target_actor := \<lparr>an_n_inputs = 1, an_n_actions = 1,
                              an_parameters = [(''mu.weight'', [1/2])], an_optimizer = ()\<rparr>\<rparr>)"
    unfolding Agent_Multi_learn_def i demo_empty_batch_locals
    using g by (simp only: if_False sum.case demo_empty_batch_locals demo_empty_batch_update)
  have b: "others_features (3, []) [(1, []), (1, [])] = Inr (4, [])"
    by (simp add: others_features_def T_cat_dim0_def T_cat_dim1_def)
  have g': "\<not> mem_cntr (memory demo_agent) < batch_size demo_agent"
    by (simp add: demo_agent_def)
  have f: "get_samples_from_buffer (memory demo_small_buffer) [0, 1] = Inl IndexError"
    by (simp add: get_samples_from_buffer_def np_take_def demo_small_buffer_def)
  have f': "get_samples_from_buffer (memory demo_agent) [0, 1]
              = Inr ((1, [[1], [2]]), (1, [[1], [0]]), [5, 7], (1, [[2], [3]]), [1, 0])"
    by (simp add: get_samples_from_buffer_def np_take_def demo_agent_def)
  have c: "Agent_Multi_learn demo_torch (\<lambda>i. i) [demo_agent, demo_agent, demo_small_buffer] 0
       demo_agent = Inl IndexError"
  proof -
    have sq: "sequence_e (map (\<lambda>ag. get_samples_from_buffer (memory ag) [0, 1])
                            [demo_agent, demo_agent, demo_small_buffer]) = Inl IndexError"
      by (simp only: list.map sequence_e.simps f f' sum.case)
    show ?thesis
      unfolding Agent_Multi_learn_def using g'
      by (simp only: if_False demo_idxs(1) sum.case Agent_Multi_learn_locals_def sq)
  qed
  show ?thesis using a b c by (intro conjI)
qed

section \<open>Checkpoints\<close>

text \<open>
  C7. The claim is that \<^verbatim>\<open>save_models\<close> followed by \<^verbatim>\<open>init_from_save\<close> restores the agent.
  The code does not get that far: \<^verbatim>\<open>save_models\<close> calls \<^verbatim>\<open>T.save\<close> without the file and
  raises TypeError for every agent, file name and file system, writing nothing; and
  \<^verbatim>\<open>init_from_save\<close> reads the unbound name \<open>torch\<close> and raises NameError, whatever the
  file system holds.
\<close>

theorem save_models_raises:
  "save_models filename self fs = Inl TypeError
   \<and> init_from_save a0 c0 ta0 tc0 opt_a opt_c filename fs' = Inl NameError"
  by (simp add: save_models_def T_save_def init_from_save_def module_globals_def)

end
